theory Spec2Isabelle
  imports Main "HOL-Library.Sublist"
begin

section \<open>Data model\<close>

text \<open>
  The records follow the interfaces used by \<^verbatim>\<open>import.service.ts\<close> and
  \<^verbatim>\<open>id-translate-helper.ts\<close>. JavaScript strings are modelled as \<^typ>\<open>string\<close>
  (8-bit characters); an optional property (\<^verbatim>\<open>x?: string\<close>) is an \<^typ>\<open>string option\<close>,
  with \<^const>\<open>None\<close> for \<^verbatim>\<open>undefined\<close>.
\<close>

record importAsset =
  assetId :: string
  filename :: string
  mimeType :: "string option"
  binaryData :: string

record parsedElement =
  el_codename :: string
  el_type :: string
  el_value :: string

record parsedContentItem =
  item_codename :: string
  item_name :: string
  item_type :: string
  item_collection :: string
  item_language :: string
  workflow_step :: "string option"
  elements :: "parsedElement list"

text \<open>Target-side models returned by the management client.\<close>

record assetModel =
  asset_id :: string

record fileReference =
  file_id :: string

record contentItem =
  ci_id :: string
  ci_name :: string
  ci_codename :: string
  ci_collection_id :: string

record languageVariant =
  lv_workflowStep_id :: "string option"

record workflowStep =
  step_id :: string
  step_codename :: string

record workflow =
  wf_codename :: string
  steps :: "workflowStep list"
  publishedStep :: workflowStep
  archivedStep :: workflowStep

record collection =
  col_id :: string
  col_codename :: string

text \<open>
  The \<^verbatim>\<open>imported\<close> and \<^verbatim>\<open>original\<close> properties of a ledger entry are of type
  \<^verbatim>\<open>any\<close>; the values the import service stores there are collected in one datatype.
  \<open>UpsertedVariantsRef\<close> stands for the reference to the local array
  \<^verbatim>\<open>upsertedLanguageVariants\<close> that the variant entries share.
\<close>

datatype payload =
    SourceAsset importAsset
  | SourceItem parsedContentItem
  | TargetAsset assetModel
  | TargetFile fileReference
  | TargetItem contentItem
  | TargetVariant languageVariant
  | UpsertedVariantsRef

record importItemResult =
  imported :: payload
  original :: payload
  importId :: "string option"
  originalId :: "string option"
  originalCodename :: "string option"

section \<open>Reference translation (id-translate-helper.ts)\<close>

text \<open>JavaScript truthiness of a \<^verbatim>\<open>string | undefined\<close> value.\<close>

fun truthy :: "string option \<Rightarrow> bool" where
  "truthy None = False"
| "truthy (Some s) = (s \<noteq> [])"

text \<open>
  \<^verbatim>\<open>items.find((m) => m.originalId === id)\<close> followed by \<^verbatim>\<open>item?.importId\<close>.
  The argument is an option because the tree walk passes \<^verbatim>\<open>data.id\<close>, which may be
  \<^verbatim>\<open>undefined\<close>.
\<close>

definition tryFindNewId :: "string option \<Rightarrow> importItemResult list \<Rightarrow> string option" where
  "tryFindNewId ident items =
     (case find (\<lambda>m. originalId m = ident) items of
        None \<Rightarrow> None
      | Some item \<Rightarrow> importId item)"

definition tryFindNewIdForCodename :: "string \<Rightarrow> importItemResult list \<Rightarrow> string option" where
  "tryFindNewIdForCodename codename items =
     (case find (\<lambda>m. originalCodename m = Some codename) items of
        None \<Rightarrow> None
      | Some item \<Rightarrow> importId item)"

subsection \<open>Global replace with a one-group pattern\<close>

text \<open>
  All five patterns have the form \<^verbatim>\<open>/<name>="(.*?)"/g\<close>: a literal, a lazy group of
  characters other than line terminators, and a closing double quote. A pattern is
  represented by its literal part. The line terminators of the 8-bit character model are
  line feed and carriage return.
\<close>

definition dq :: char where
  "dq = CHR 0x22"

text \<open>A text between single quotes, as the template literals of the error messages have it.\<close>

definition quoted :: "string \<Rightarrow> string" where
  "quoted s = [CHR 0x27] @ s @ [CHR 0x27]"

definition isLineTerminator :: "char \<Rightarrow> bool" where
  "isLineTerminator c = (c = CHR 0x0A \<or> c = CHR 0x0D)"

text \<open>
  \<open>takeCapture s\<close> matches \<^verbatim>\<open>(.*?)"\<close> at the start of \<open>s\<close>: the shortest run of
  non-terminator characters followed by a quote. It returns the captured group and the
  text after the closing quote.
\<close>

fun takeCapture :: "string \<Rightarrow> (string \<times> string) option" where
  "takeCapture [] = None"
| "takeCapture (c # cs) =
     (if c = dq then Some ([], cs)
      else if isLineTerminator c then None
      else (case takeCapture cs of
              None \<Rightarrow> None
            | Some (b, rest) \<Rightarrow> Some (c # b, rest)))"

definition matchAt :: "string \<Rightarrow> string \<Rightarrow> (string \<times> string) option" where
  "matchAt lit s = (if prefix lit s then takeCapture (drop (length lit) s) else None)"

lemma takeCapture_length: "takeCapture s = Some (b, rest) \<Longrightarrow> length rest < length s"
  by (induction s arbitrary: b rest) (auto split: if_splits option.splits)

lemma matchAt_length: "matchAt lit s = Some (b, rest) \<Longrightarrow> length rest < length s"
  by (auto simp: matchAt_def split: if_splits dest!: takeCapture_length)

text \<open>
  \<^verbatim>\<open>text.replace(regex, (a, b) => ...)\<close> with the global flag: matches are taken
  leftmost first and do not overlap, the callback receives the whole match \<open>a\<close> and the
  group \<open>b\<close>, and unmatched characters are copied.
\<close>

function replaceRegex :: "string \<Rightarrow> (string \<Rightarrow> string \<Rightarrow> string) \<Rightarrow> string \<Rightarrow> string" where
  "replaceRegex lit cb [] = []"
| "replaceRegex lit cb (c # cs) =
     (case matchAt lit (c # cs) of
        Some (b, rest) \<Rightarrow> cb (lit @ b @ [dq]) b @ replaceRegex lit cb rest
      | None \<Rightarrow> c # replaceRegex lit cb cs)"
  by pat_completeness auto
termination
  by (relation "measure (\<lambda>(lit, cb, s). length s)") (auto dest: matchAt_length)

text \<open>The two callbacks.\<close>

definition idCallback :: "string \<Rightarrow> importItemResult list \<Rightarrow> string \<Rightarrow> string \<Rightarrow> string" where
  "idCallback replaceAttr items a b =
     (if b \<noteq> [] then
        (case tryFindNewId (Some b) items of
           Some newId \<Rightarrow> if newId \<noteq> [] then replaceAttr @ ''='' @ [dq] @ newId @ [dq] else a
         | None \<Rightarrow> a)
      else a)"

definition codenameCallback :: "string \<Rightarrow> importItemResult list \<Rightarrow> string \<Rightarrow> string \<Rightarrow> string" where
  "codenameCallback replaceAttr items a b =
     (if b \<noteq> [] then
        (case tryFindNewIdForCodename b items of
           Some newId \<Rightarrow>
             if newId \<noteq> [] then replaceAttr @ ''='' @ [dq] @ newId @ [dq]
             else replaceAttr @ ''='' @ [dq] @ ''ahoj'' @ [dq]
         | None \<Rightarrow> replaceAttr @ ''='' @ [dq] @ ''ahoj'' @ [dq])
      else a)"

definition replaceIdWithRegex :: "string \<Rightarrow> string \<Rightarrow> string \<Rightarrow> importItemResult list \<Rightarrow> string" where
  "replaceIdWithRegex regex text replaceAttr items = replaceRegex regex (idCallback replaceAttr items) text"

definition replaceCodenameWithRegex :: "string \<Rightarrow> string \<Rightarrow> string \<Rightarrow> importItemResult list \<Rightarrow> string" where
  "replaceCodenameWithRegex regex text replaceAttr items =
     replaceRegex regex (codenameCallback replaceAttr items) text"

text \<open>The literal part of \<^verbatim>\<open>/<name>="(.*?)"/g\<close>.\<close>

definition rx :: "string \<Rightarrow> string" where
  "rx name = name @ ''='' @ [dq]"

definition replaceIdsInRichText :: "string \<Rightarrow> importItemResult list \<Rightarrow> string" where
  "replaceIdsInRichText text items =
     (let text1 = replaceCodenameWithRegex (rx ''data-codename'') text ''data-id'' items;
          text2 = replaceIdWithRegex (rx ''data-item-id'') text1 ''data-item-id'' items;
          text3 = replaceIdWithRegex (rx ''data-asset-id'') text2 ''data-asset-id'' items;
          text4 = replaceIdWithRegex (rx ''data-image-id'') text3 ''data-image-id'' items;
          text5 = replaceIdWithRegex (rx ''data-id'') text4 ''data-id'' items
      in text5)"


subsection \<open>The generic tree walk\<close>

text \<open>
  The value tree is what a JSON document parses to: no sharing between subtrees and no
  cycles, so in-place mutation of an object is modelled by returning the updated tree.
  An object is the list of its properties in \<^verbatim>\<open>Object.keys\<close> order.
\<close>

datatype json =
    JNull
  | JBool bool
  | JNum int
  | JStr string
  | JArr "json list"
  | JObj "(string \<times> json) list"

text \<open>Property assignment \<^verbatim>\<open>data[key] = v\<close>: overwrite in place, or append a new property.\<close>

fun setProp :: "string \<Rightarrow> json \<Rightarrow> (string \<times> json) list \<Rightarrow> (string \<times> json) list" where
  "setProp key v [] = [(key, v)]"
| "setProp key v ((k, w) # ps) = (if k = key then (k, v) # ps else (k, w) # setProp key v ps)"

text \<open>\<^verbatim>\<open>String.prototype.toLowerCase\<close> on the ASCII letters.\<close>

definition toLowerChar :: "char \<Rightarrow> char" where
  "toLowerChar c =
     (case map_of (zip ''ABCDEFGHIJKLMNOPQRSTUVWXYZ'' ''abcdefghijklmnopqrstuvwxyz'') c of
        Some l \<Rightarrow> l
      | None \<Rightarrow> c)"

definition toLowerCase :: "string \<Rightarrow> string" where
  "toLowerCase s = map toLowerChar s"

text \<open>\<^verbatim>\<open>val.startsWith('<') && val.endsWith('>')\<close>\<close>

definition isRichText :: "string \<Rightarrow> bool" where
  "isRichText val = (val \<noteq> [] \<and> hd val = CHR ''<'' \<and> last val = CHR ''>'')"

text \<open>\<^verbatim>\<open>typeof val === 'object' && val !== null\<close>\<close>

fun isObject :: "json \<Rightarrow> bool" where
  "isObject (JArr xs) = True"
| "isObject (JObj ps) = True"
| "isObject v = False"

text \<open>
  \<^verbatim>\<open>tryFindNewId(data.id, items)\<close> for an arbitrary property value: a missing property
  is \<^verbatim>\<open>undefined\<close>, and a value that is neither a string nor \<^verbatim>\<open>undefined\<close> is
  strictly equal to no \<^verbatim>\<open>originalId\<close>.
\<close>

fun tryFindNewIdOfValue :: "json option \<Rightarrow> importItemResult list \<Rightarrow> string option" where
  "tryFindNewIdOfValue None items = tryFindNewId None items"
| "tryFindNewIdOfValue (Some (JStr s)) items = tryFindNewId (Some s) items"
| "tryFindNewIdOfValue (Some v) items = None"

text \<open>
  \<open>replaceIdReferencesWithNewId\<close> returns the tree after the in-place walk. Falsy data
  is skipped; a number or boolean has no own keys; a string primitive has its indices
  as keys, each holding one character, which is never both \<^verbatim>\<open><\<close> and \<^verbatim>\<open>>\<close>, is not
  named \<^verbatim>\<open>id\<close> and is not an object: primitives are returned as they are.

  \<open>walkKeys\<close> is the loop over \<^verbatim>\<open>Object.keys(data)\<close>, a snapshot taken before the
  loop; \<open>cur\<close> is the object as mutated so far. The snapshot is passed with the child
  each key held at the start: the value read under a key at its iteration is that child,
  unless an earlier iteration assigned \<^verbatim>\<open>data.id\<close>, which stores a string. So an object
  read at the iteration is the original child \<open>v0\<close>, on which the walk recurses.
\<close>

function (sequential) replaceIdReferencesWithNewId :: "json \<Rightarrow> importItemResult list \<Rightarrow> json"
  and walkArray :: "json list \<Rightarrow> importItemResult list \<Rightarrow> json list"
  and walkKeys :: "(string \<times> json) list \<Rightarrow> (string \<times> json) list \<Rightarrow> importItemResult list
                     \<Rightarrow> (string \<times> json) list" where
  "replaceIdReferencesWithNewId (JArr xs) items = JArr (walkArray xs items)"
| "replaceIdReferencesWithNewId (JObj ps) items = JObj (walkKeys ps ps items)"
| "replaceIdReferencesWithNewId v items = v"
| "walkArray [] items = []"
| "walkArray (x # xs) items = replaceIdReferencesWithNewId x items # walkArray xs items"
| "walkKeys [] cur items = cur"
| "walkKeys ((key, v0) # rest) cur items =
     (let val = (case map_of cur key of Some v \<Rightarrow> v | None \<Rightarrow> v0);
          cur1 = (case val of
                    JStr s \<Rightarrow> if isRichText s then setProp key (JStr (replaceIdsInRichText s items)) cur
                              else cur
                  | _ \<Rightarrow> cur);
          cur2 = (if toLowerCase key = ''id'' then
                    (case tryFindNewIdOfValue (map_of cur1 ''id'') items of
                       Some newId \<Rightarrow> if newId \<noteq> [] then setProp ''id'' (JStr newId) cur1 else cur1
                     | None \<Rightarrow> cur1)
                  else cur1);
          cur3 = (if isObject val then setProp key (replaceIdReferencesWithNewId v0 items) cur2
                  else cur2)
      in walkKeys rest cur3 items)"
  by pat_completeness auto
termination
  by (relation "measure (\<lambda>x. case x of
                    Inl (v, items) \<Rightarrow> 2 * size v
                  | Inr (Inl (xs, items)) \<Rightarrow> 2 * size_list size xs + 1
                  | Inr (Inr (ps, cur, items)) \<Rightarrow> 2 * size_list (size_prod (\<lambda>_. 0) size) ps + 1)")
     auto

section \<open>The import service (import.service.ts)\<close>

subsection \<open>Errors, client calls and state\<close>

text \<open>
  A thrown value is an instance of \<^verbatim>\<open>ContentManagementBaseKontentError\<close> (with the HTTP
  status of \<^verbatim>\<open>originalError?.response?.status\<close>), an \<^verbatim>\<open>Error\<close> with its message, or
  the plain object that \<^verbatim>\<open>handleError\<close> builds from a Kontent error.
\<close>

record kontentError =
  ke_message :: string
  ke_errorCode :: int
  ke_requestId :: string
  ke_validationErrors :: "string list"
  ke_status :: "nat option"

datatype thrown =
    KontentError kontentError
  | JsError string
  | ClassifiedError string int string string

type_synonym elementContract = json

text \<open>The requests sent to the target project, with the data that identifies them.\<close>

datatype call =
    ProjectInformation
  | ViewAsset string
  | UploadBinaryFile string string string
  | AddAsset string string
  | ListWorkflows
  | ListCollections
  | ViewContentItem string
  | AddContentItem string string string string
  | UpsertContentItem string string string
  | ViewLanguageVariant string string
  | CreateNewVersionOfLanguageVariant string string
  | ChangeWorkflowStepOfLanguageVariant string string string
  | UpsertLanguageVariant string string "elementContract list"
  | PublishLanguageVariant string string
  | ChangeWorkflowOfLanguageVariant string string string string

text \<open>
  The management client is an external collaborator. Each of its operations is a
  function of the requests made so far and of the request's data, so that any
  deterministic target project, with any state of its own, is an instance.
\<close>

record client =
  cl_projectInformation :: "call list \<Rightarrow> thrown + string \<times> string"
  cl_viewAsset :: "call list \<Rightarrow> string \<Rightarrow> thrown + assetModel"
  cl_uploadBinaryFile :: "call list \<Rightarrow> string \<Rightarrow> string \<Rightarrow> string \<Rightarrow> thrown + fileReference"
  cl_addAsset :: "call list \<Rightarrow> string \<Rightarrow> string \<Rightarrow> thrown + assetModel"
  cl_listWorkflows :: "call list \<Rightarrow> thrown + workflow list"
  cl_listCollections :: "call list \<Rightarrow> thrown + collection list"
  cl_viewContentItem :: "call list \<Rightarrow> string \<Rightarrow> thrown + contentItem"
  cl_addContentItem :: "call list \<Rightarrow> string \<Rightarrow> string \<Rightarrow> string \<Rightarrow> string \<Rightarrow> thrown + contentItem"
  cl_upsertContentItem :: "call list \<Rightarrow> string \<Rightarrow> string \<Rightarrow> string \<Rightarrow> thrown + contentItem"
  cl_viewLanguageVariant :: "call list \<Rightarrow> string \<Rightarrow> string \<Rightarrow> thrown + languageVariant"
  cl_createNewVersion :: "call list \<Rightarrow> string \<Rightarrow> string \<Rightarrow> thrown + unit"
  cl_changeWorkflowStep :: "call list \<Rightarrow> string \<Rightarrow> string \<Rightarrow> string \<Rightarrow> thrown + unit"
  cl_upsertLanguageVariant :: "call list \<Rightarrow> string \<Rightarrow> string \<Rightarrow> elementContract list \<Rightarrow> thrown + languageVariant"
  cl_publishLanguageVariant :: "call list \<Rightarrow> string \<Rightarrow> string \<Rightarrow> thrown + unit"
  cl_changeWorkflow :: "call list \<Rightarrow> string \<Rightarrow> string \<Rightarrow> string \<Rightarrow> string \<Rightarrow> thrown + unit"

datatype actionType =
    Upload | Create | Fetch | SkipUpdate | Upsert | Publish | Archive
  | ChangeWorkflowStep | CreateNewVersion | UnArchive

datatype itemType = BinaryFile | Asset | ContentItem | LanguageVariant

text \<open>What is written to the console; colours are left out of the titles.\<close>

datatype logLine =
    ItemLog string itemType actionType
  | Message string
  | Warning string
  | ItemFailed string string
  | VariantFailed string string string
  | ErrorDump thrown

text \<open>
  The mutable state of a run: the requests made, the console, the array
  \<^verbatim>\<open>importedItems\<close> the running method appends to, and the two local arrays of
  \<^verbatim>\<open>importContentItemsAsync\<close>.
\<close>

record state =
  calls :: "call list"
  console :: "logLine list"
  ledger :: "importItemResult list"
  preparedItems :: "contentItem list"
  upsertedLanguageVariants :: "languageVariant list"

text \<open>An asynchronous method either throws or returns, and leaves a state behind.\<close>

type_synonym 'a io = "state \<Rightarrow> (thrown + 'a) \<times> state"

definition ret :: "'a \<Rightarrow> 'a io" where
  "ret x = (\<lambda>st. (Inr x, st))"

definition throw :: "thrown \<Rightarrow> 'a io" where
  "throw e = (\<lambda>st. (Inl e, st))"

definition bind :: "'a io \<Rightarrow> ('a \<Rightarrow> 'b io) \<Rightarrow> 'b io" where
  "bind m f = (\<lambda>st. case m st of (Inl e, st') \<Rightarrow> (Inl e, st') | (Inr x, st') \<Rightarrow> f x st')"

definition tryCatch :: "'a io \<Rightarrow> (thrown \<Rightarrow> 'a io) \<Rightarrow> 'a io" where
  "tryCatch m handler = (\<lambda>st. case m st of (Inl e, st') \<Rightarrow> handler e st' | (Inr x, st') \<Rightarrow> (Inr x, st'))"

definition consoleLog :: "logLine \<Rightarrow> unit io" where
  "consoleLog l = (\<lambda>st. (Inr (), st\<lparr>console := console st @ [l]\<rparr>))"

text \<open>A request: the client answers from the requests made before it, and it is recorded.\<close>

definition request :: "call \<Rightarrow> (call list \<Rightarrow> thrown + 'a) \<Rightarrow> 'a io" where
  "request c answer = (\<lambda>st. (answer (calls st), st\<lparr>calls := calls st @ [c]\<rparr>))"

text \<open>\<^verbatim>\<open>error instanceof ContentManagementBaseKontentError\<close> with response status 404.\<close>

fun isNotFound :: "thrown \<Rightarrow> bool" where
  "isNotFound (KontentError ke) = (ke_status ke = Some 404)"
| "isNotFound e = False"

fun errorMessage :: "thrown \<Rightarrow> string" where
  "errorMessage (KontentError ke) = ke_message ke"
| "errorMessage (JsError m) = m"
| "errorMessage (ClassifiedError m c r v) = m"

subsection \<open>global-helper.ts\<close>

fun joinWith :: "string \<Rightarrow> string list \<Rightarrow> string" where
  "joinWith sep [] = []"
| "joinWith sep [x] = x"
| "joinWith sep (x # y # ys) = x @ sep @ joinWith sep (y # ys)"

text \<open>\<open>handleError\<close> never returns: the result is the value it throws.\<close>

fun handleError :: "thrown \<Rightarrow> thrown" where
  "handleError (KontentError ke) =
     ClassifiedError (''Failed to import data with error: '' @ ke_message ke) (ke_errorCode ke)
       (ke_requestId ke) (joinWith '', '' (ke_validationErrors ke))"
| "handleError e = e"

subsection \<open>The ledger\<close>

definition processItem ::
  "actionType \<Rightarrow> itemType \<Rightarrow> string \<Rightarrow> payload \<Rightarrow> payload \<Rightarrow> string option \<Rightarrow> string option
     \<Rightarrow> string option \<Rightarrow> unit io" where
  "processItem action itemT title importedV originalV importedIdV originalIdV originalCodenameV =
     (\<lambda>st.
        let st1 = st\<lparr>ledger := ledger st @
                     [\<lparr>imported = importedV, original = originalV, importId = importedIdV,
                       originalId = originalIdV, originalCodename = originalCodenameV\<rparr>]\<rparr>
        in if action = Fetch then (Inr (), st1)
           else (Inr (), st1\<lparr>console := console st1 @ [ItemLog title itemT action]\<rparr>))"

subsection \<open>Assets\<close>

text \<open>
  One of the two identical existence checks: the lookup's answer replaces
  \<^verbatim>\<open>existingAsset\<close>; a 404 leaves it as it was; any other error is thrown.
\<close>

definition checkExistingAsset :: "client \<Rightarrow> string \<Rightarrow> assetModel option \<Rightarrow> assetModel option io" where
  "checkExistingAsset cl externalId existingAsset =
     tryCatch
       (bind (request (ViewAsset externalId) (\<lambda>h. cl_viewAsset cl h externalId)) (\<lambda>a. ret (Some a)))
       (\<lambda>error. if isNotFound error then ret existingAsset else throw error)"

definition importAsset :: "client \<Rightarrow> importAsset \<Rightarrow> unit io" where
  "importAsset cl asset =
     bind (checkExistingAsset cl (assetId asset) None) (\<lambda>existing1.
     bind (checkExistingAsset cl (assetId asset) existing1) (\<lambda>existingAsset.
       case existingAsset of
         None \<Rightarrow>
           bind (request
                   (UploadBinaryFile (binaryData asset) (case mimeType asset of Some t \<Rightarrow> t | None \<Rightarrow> [])
                      (filename asset))
                   (\<lambda>h. cl_uploadBinaryFile cl h (binaryData asset)
                          (case mimeType asset of Some t \<Rightarrow> t | None \<Rightarrow> []) (filename asset)))
             (\<lambda>uploadedBinaryFile.
           bind (processItem Upload BinaryFile (filename asset) (TargetFile uploadedBinaryFile)
                   (SourceAsset asset) None None None) (\<lambda>_.
           bind (request (AddAsset (file_id uploadedBinaryFile) (assetId asset))
                   (\<lambda>h. cl_addAsset cl h (file_id uploadedBinaryFile) (assetId asset)))
             (\<lambda>createdAsset.
           processItem Create Asset (filename asset) (TargetAsset createdAsset) (SourceAsset asset)
             (Some (asset_id createdAsset)) (Some (assetId asset)) None)))
       | Some existing \<Rightarrow>
           bind (processItem Fetch Asset (filename asset) (TargetAsset existing) (SourceAsset asset)
                   (Some (asset_id existing)) (Some (assetId asset)) None) (\<lambda>_.
           processItem SkipUpdate Asset (filename asset) (TargetAsset existing) (SourceAsset asset)
             (Some (asset_id existing)) (Some (assetId asset)) None)))"

text \<open>
  \<open>forEach\<close> is a \<^verbatim>\<open>for ... of\<close> loop whose body may throw: the first exception ends it.
\<close>

fun forEach :: "'a list \<Rightarrow> ('a \<Rightarrow> unit io) \<Rightarrow> unit io" where
  "forEach [] body = ret ()"
| "forEach (x # xs) body = bind (body x) (\<lambda>_. forEach xs body)"

text \<open>
  \<open>importAssetsAsync\<close> fills a local array of its own and returns it: the loop runs
  with an empty ledger, and the caller's ledger is back in place when the method returns.
  When the method throws, the state left behind still shows the local array.
\<close>

definition importAssetsAsync :: "client \<Rightarrow> importAsset list \<Rightarrow> importItemResult list io" where
  "importAssetsAsync cl assets =
     (\<lambda>st. case forEach assets (importAsset cl) (st\<lparr>ledger := []\<rparr>) of
              (Inl e, st') \<Rightarrow> (Inl e, st')
            | (Inr _, st') \<Rightarrow> (Inr (ledger st'), st'\<lparr>ledger := ledger st\<rparr>))"

subsection \<open>Workflows\<close>

text \<open>
  Parts of the repository that the service imports from other modules:
  the constant \<^verbatim>\<open>defaultWorkflowCodename\<close>, the element transform
  \<^verbatim>\<open>translationHelper.transformToImportValue\<close> (which may throw, or return nothing), and
  the version of the package.
\<close>

record env =
  defaultWorkflowCodename :: string
  transformToImportValue ::
    "string \<Rightarrow> string \<Rightarrow> string \<Rightarrow> importItemResult list \<Rightarrow> parsedContentItem list
       \<Rightarrow> thrown + elementContract option"
  version :: string

fun workflowForStepByCodename :: "string \<Rightarrow> workflow list \<Rightarrow> workflow option" where
  "workflowForStepByCodename itemWorkflowCodename [] = None"
| "workflowForStepByCodename itemWorkflowCodename (w # ws) =
     (if step_codename (archivedStep w) = itemWorkflowCodename then Some w
      else if step_codename (publishedStep w) = itemWorkflowCodename then Some w
      else if find (\<lambda>m. step_codename m = itemWorkflowCodename) (steps w) \<noteq> None then Some w
      else workflowForStepByCodename itemWorkflowCodename ws)"

definition findDefaultWorkflow :: "env \<Rightarrow> workflow list \<Rightarrow> thrown + workflow" where
  "findDefaultWorkflow ev workflows =
     (case find (\<lambda>m. toLowerCase (wf_codename m) = toLowerCase (defaultWorkflowCodename ev)) workflows of
        None \<Rightarrow> Inl (JsError ''Missing default workflow'')
      | Some defaultWorkflow \<Rightarrow> Inr defaultWorkflow)"

definition getWorkflowForGivenStepByCodename :: "env \<Rightarrow> string \<Rightarrow> workflow list \<Rightarrow> thrown + workflow" where
  "getWorkflowForGivenStepByCodename ev itemWorkflowCodename workflows =
     (case workflowForStepByCodename itemWorkflowCodename workflows of
        Some w \<Rightarrow> Inr w
      | None \<Rightarrow> findDefaultWorkflow ev workflows)"

fun workflowForStepById :: "string \<Rightarrow> workflow list \<Rightarrow> workflow option" where
  "workflowForStepById workflowId [] = None"
| "workflowForStepById workflowId (w # ws) =
     (if step_id (archivedStep w) = workflowId then Some w
      else if step_id (publishedStep w) = workflowId then Some w
      else if find (\<lambda>m. step_id m = workflowId) (steps w) \<noteq> None then Some w
      else workflowForStepById workflowId ws)"

definition getWorkflowForGivenStepById :: "env \<Rightarrow> string \<Rightarrow> workflow list \<Rightarrow> thrown + workflow" where
  "getWorkflowForGivenStepById ev workflowId workflows =
     (case workflowForStepById workflowId workflows of
        Some w \<Rightarrow> Inr w
      | None \<Rightarrow> findDefaultWorkflow ev workflows)"

fun isLanguageVariantPublished :: "languageVariant \<Rightarrow> workflow list \<Rightarrow> bool" where
  "isLanguageVariantPublished languageVariant [] = False"
| "isLanguageVariantPublished languageVariant (w # ws) =
     (if Some (step_id (publishedStep w)) = lv_workflowStep_id languageVariant then True
      else isLanguageVariantPublished languageVariant ws)"

fun isLanguageVariantArchived :: "languageVariant \<Rightarrow> workflow list \<Rightarrow> bool" where
  "isLanguageVariantArchived languageVariant [] = False"
| "isLanguageVariantArchived languageVariant (w # ws) =
     (if Some (step_id (archivedStep w)) = lv_workflowStep_id languageVariant then True
      else isLanguageVariantArchived languageVariant ws)"

fun doesWorkflowStepCodenameRepresentPublishedStep :: "string \<Rightarrow> workflow list \<Rightarrow> bool" where
  "doesWorkflowStepCodenameRepresentPublishedStep workflowStepCodename [] = False"
| "doesWorkflowStepCodenameRepresentPublishedStep workflowStepCodename (w # ws) =
     (if step_codename (publishedStep w) = workflowStepCodename then True
      else doesWorkflowStepCodenameRepresentPublishedStep workflowStepCodename ws)"

fun doesWorkflowStepCodenameRepresentArchivedStep :: "string \<Rightarrow> workflow list \<Rightarrow> bool" where
  "doesWorkflowStepCodenameRepresentArchivedStep workflowStepCodename [] = False"
| "doesWorkflowStepCodenameRepresentArchivedStep workflowStepCodename (w # ws) =
     (if step_codename (archivedStep w) = workflowStepCodename then True
      else doesWorkflowStepCodenameRepresentArchivedStep workflowStepCodename ws)"

subsection \<open>Content items\<close>

record importConfig =
  skipFailedItems :: bool
  canImportAsset :: "(importAsset \<Rightarrow> bool) option"
  canImportContentItem :: "(parsedContentItem \<Rightarrow> bool) option"

definition liftResult :: "thrown + 'a \<Rightarrow> 'a io" where
  "liftResult r = (case r of Inl e \<Rightarrow> throw e | Inr x \<Rightarrow> ret x)"

definition prepareContentItemForImportAsync :: "client \<Rightarrow> parsedContentItem \<Rightarrow> contentItem io" where
  "prepareContentItemForImportAsync cl importContentItem =
     tryCatch
       (bind (request (ViewContentItem (item_codename importContentItem))
                (\<lambda>h. cl_viewContentItem cl h (item_codename importContentItem))) (\<lambda>contentItem.
        bind (processItem Fetch ContentItem (ci_name contentItem) (TargetItem contentItem)
                (TargetItem contentItem) (Some (ci_id contentItem)) None
                (Some (ci_codename contentItem))) (\<lambda>_.
        ret contentItem)))
       (\<lambda>error.
          if isNotFound error then
            bind (request
                    (AddContentItem (item_name importContentItem) (item_type importContentItem)
                       (item_codename importContentItem) (item_collection importContentItem))
                    (\<lambda>h. cl_addContentItem cl h (item_name importContentItem)
                           (item_type importContentItem) (item_codename importContentItem)
                           (item_collection importContentItem))) (\<lambda>contentItem.
            bind (processItem Create ContentItem (ci_name contentItem) (TargetItem contentItem)
                    (TargetItem contentItem) (Some (ci_id contentItem)) None
                    (Some (ci_codename contentItem))) (\<lambda>_.
            ret contentItem))
          else throw error)"

definition shouldUpdateContentItem ::
  "parsedContentItem \<Rightarrow> contentItem \<Rightarrow> collection list \<Rightarrow> thrown + bool" where
  "shouldUpdateContentItem importContentItem item collections =
     (case find (\<lambda>m. col_codename m = item_collection importContentItem) collections of
        None \<Rightarrow> Inl (JsError (''Invalid collection '' @ quoted (item_collection importContentItem)))
      | Some collection \<Rightarrow>
          Inr (item_name importContentItem \<noteq> ci_name item
               \<or> item_collection importContentItem \<noteq> col_codename collection))"

text \<open>The \<^verbatim>\<open>catch\<close> clause of the first loop.\<close>

definition itemFailed :: "importConfig \<Rightarrow> parsedContentItem \<Rightarrow> thrown \<Rightarrow> unit io" where
  "itemFailed cfg importContentItem error =
     (if skipFailedItems cfg
      then consoleLog (ItemFailed (item_codename importContentItem) (errorMessage error))
      else throw error)"

text \<open>The body of the first loop of \<^verbatim>\<open>importContentItemsAsync\<close>.\<close>

definition importContentItemBody :: "client \<Rightarrow> collection list \<Rightarrow> parsedContentItem \<Rightarrow> unit io" where
  "importContentItemBody cl collections importContentItem =
     (if \<not> truthy (workflow_step importContentItem) then ret ()
      else
        bind (prepareContentItemForImportAsync cl importContentItem) (\<lambda>preparedContentItem.
        bind (\<lambda>st. (Inr (), st\<lparr>preparedItems := preparedItems st @ [preparedContentItem]\<rparr>)) (\<lambda>_.
        bind (liftResult (shouldUpdateContentItem importContentItem preparedContentItem collections))
          (\<lambda>shouldUpdate.
        if shouldUpdate then
          bind (request
                  (UpsertContentItem (item_codename importContentItem) (item_name importContentItem)
                     (item_collection importContentItem))
                  (\<lambda>h. cl_upsertContentItem cl h (item_codename importContentItem)
                         (item_name importContentItem) (item_collection importContentItem)))
            (\<lambda>upsertedContentItem.
          processItem Upsert ContentItem (item_name importContentItem) (SourceItem importContentItem)
            (SourceItem importContentItem) (Some (ci_id upsertedContentItem)) None
            (Some (item_codename importContentItem)))
        else
          processItem SkipUpdate ContentItem (item_name importContentItem)
            (SourceItem importContentItem) (SourceItem importContentItem)
            (Some (ci_id preparedContentItem)) None (Some (item_codename importContentItem))))))"

definition importContentItemStep :: "importConfig \<Rightarrow> client \<Rightarrow> collection list \<Rightarrow> parsedContentItem \<Rightarrow> unit io" where
  "importContentItemStep cfg cl collections item =
     tryCatch (importContentItemBody cl collections item) (itemFailed cfg item)"

subsection \<open>Language variants\<close>

definition prepareLanguageVariantForImportAsync ::
  "env \<Rightarrow> client \<Rightarrow> parsedContentItem \<Rightarrow> workflow list \<Rightarrow> unit io" where
  "prepareLanguageVariantForImportAsync ev cl importContentItem workflows =
     bind
       (tryCatch
          (bind (request
                   (ViewLanguageVariant (item_codename importContentItem) (item_language importContentItem))
                   (\<lambda>h. cl_viewLanguageVariant cl h (item_codename importContentItem)
                          (item_language importContentItem))) (\<lambda>v.
           bind (processItem Fetch LanguageVariant
                   (item_name importContentItem @ '' | '' @ item_language importContentItem)
                   (TargetVariant v) (SourceItem importContentItem) None None None) (\<lambda>_.
           ret (Some v))))
          (\<lambda>error. if isNotFound error then ret None else throw error))
       (\<lambda>languageVariantOfContentItem.
          case languageVariantOfContentItem of
            None \<Rightarrow> ret ()
          | Some v \<Rightarrow>
              if isLanguageVariantPublished v workflows then
                bind (request
                        (CreateNewVersionOfLanguageVariant (item_codename importContentItem)
                           (item_language importContentItem))
                        (\<lambda>h. cl_createNewVersion cl h (item_codename importContentItem)
                               (item_language importContentItem))) (\<lambda>_.
                processItem CreateNewVersion LanguageVariant
                  (item_name importContentItem @ '' | '' @ item_language importContentItem)
                  (TargetVariant v) (SourceItem importContentItem) None None None)
              else if isLanguageVariantArchived v workflows then
                (case lv_workflowStep_id v of
                   None \<Rightarrow> ret ()
                 | Some stepId \<Rightarrow>
                     if stepId = [] then ret ()
                     else
                       bind (liftResult (getWorkflowForGivenStepById ev stepId workflows)) (\<lambda>workflow.
                       case steps workflow of
                         [] \<Rightarrow> throw (JsError (''Cannot read properties of undefined (reading ''
                                          @ quoted ''codename'' @ '')''))
                       | newWorkflowStep # _ \<Rightarrow>
                           bind (request
                                   (ChangeWorkflowStepOfLanguageVariant (item_codename importContentItem)
                                      (item_language importContentItem) (step_codename newWorkflowStep))
                                   (\<lambda>h. cl_changeWorkflowStep cl h (item_codename importContentItem)
                                          (item_language importContentItem)
                                          (step_codename newWorkflowStep))) (\<lambda>_.
                           processItem UnArchive LanguageVariant
                             (item_name importContentItem @ '' | '' @ step_codename newWorkflowStep
                                @ '' | '' @ item_language importContentItem)
                             (TargetVariant v) (SourceItem importContentItem) None None None)))
              else ret ())"

definition getElementContract ::
  "env \<Rightarrow> parsedContentItem list \<Rightarrow> parsedElement \<Rightarrow> importItemResult list \<Rightarrow> thrown + elementContract" where
  "getElementContract ev sourceItems element importItems =
     (case transformToImportValue ev (el_value element) (el_codename element) (el_type element)
             importItems sourceItems of
        Inl e \<Rightarrow> Inl e
      | Inr None \<Rightarrow> Inl (JsError ''Missing import contract for element '')
      | Inr (Some importContract) \<Rightarrow> Inr importContract)"

text \<open>\<^verbatim>\<open>elements.map(f)\<close> where \<open>f\<close> may throw.\<close>

fun mapThrowing :: "('a \<Rightarrow> thrown + 'b) \<Rightarrow> 'a list \<Rightarrow> thrown + 'b list" where
  "mapThrowing f [] = Inr []"
| "mapThrowing f (x # xs) =
     (case f x of
        Inl e \<Rightarrow> Inl e
      | Inr y \<Rightarrow> (case mapThrowing f xs of Inl e \<Rightarrow> Inl e | Inr ys \<Rightarrow> Inr (y # ys)))"

text \<open>The workflow part of the second loop, entered with a truthy \<^verbatim>\<open>workflow_step\<close>.\<close>

definition setWorkflowOfLanguageVariant ::
  "env \<Rightarrow> client \<Rightarrow> parsedContentItem \<Rightarrow> string \<Rightarrow> contentItem \<Rightarrow> workflow list \<Rightarrow> unit io" where
  "setWorkflowOfLanguageVariant ev cl importContentItem step upsertedContentItem workflows =
     (if doesWorkflowStepCodenameRepresentPublishedStep step workflows then
        bind (request
                (PublishLanguageVariant (item_codename importContentItem) (item_language importContentItem))
                (\<lambda>h. cl_publishLanguageVariant cl h (item_codename importContentItem)
                       (item_language importContentItem))) (\<lambda>_.
        processItem Publish LanguageVariant
          (ci_name upsertedContentItem @ '' | '' @ item_language importContentItem @ '' | '' @ step)
          UpsertedVariantsRef (SourceItem importContentItem) (Some (ci_id upsertedContentItem)) None
          (Some (item_codename importContentItem)))
      else if doesWorkflowStepCodenameRepresentArchivedStep step workflows then
        bind (liftResult (getWorkflowForGivenStepByCodename ev step workflows)) (\<lambda>workflow.
        bind (request
                (ChangeWorkflowOfLanguageVariant (item_codename importContentItem)
                   (item_language importContentItem) (step_codename (archivedStep workflow))
                   (wf_codename workflow))
                (\<lambda>h. cl_changeWorkflow cl h (item_codename importContentItem)
                       (item_language importContentItem) (step_codename (archivedStep workflow))
                       (wf_codename workflow))) (\<lambda>_.
        processItem Archive LanguageVariant
          (ci_name upsertedContentItem @ '' '' @ item_language importContentItem @ '' | '' @ step)
          UpsertedVariantsRef (SourceItem importContentItem) (Some (ci_id upsertedContentItem)) None
          (Some (item_codename importContentItem))))
      else
        bind (liftResult (getWorkflowForGivenStepByCodename ev step workflows)) (\<lambda>workflow.
        bind (request
                (ChangeWorkflowOfLanguageVariant (item_codename importContentItem)
                   (item_language importContentItem) step (wf_codename workflow))
                (\<lambda>h. cl_changeWorkflow cl h (item_codename importContentItem)
                       (item_language importContentItem) step (wf_codename workflow))) (\<lambda>_.
        processItem ChangeWorkflowStep LanguageVariant
          (ci_name upsertedContentItem @ '' | '' @ item_language importContentItem @ '' | '' @ step)
          UpsertedVariantsRef (SourceItem importContentItem) (Some (ci_id upsertedContentItem)) None
          (Some (item_codename importContentItem)))))"

text \<open>The body of the second loop of \<^verbatim>\<open>importContentItemsAsync\<close>.\<close>

definition importLanguageVariantBody ::
  "env \<Rightarrow> client \<Rightarrow> parsedContentItem list \<Rightarrow> workflow list \<Rightarrow> parsedContentItem \<Rightarrow> unit io" where
  "importLanguageVariantBody ev cl importContentItems workflows importContentItem =
     (case workflow_step importContentItem of
        None \<Rightarrow> ret ()
      | Some step \<Rightarrow>
          if step = [] then ret ()
          else
            bind (\<lambda>st. (Inr (find (\<lambda>m. ci_codename m = item_codename importContentItem)
                                 (preparedItems st)), st)) (\<lambda>found.
            case found of
              None \<Rightarrow>
                throw (JsError (''Invalid content item for codename ''
                                 @ quoted (item_codename importContentItem)))
            | Some upsertedContentItem \<Rightarrow>
                bind (prepareLanguageVariantForImportAsync ev cl importContentItem workflows) (\<lambda>_.
                bind (\<lambda>st. (Inr (ledger st), st)) (\<lambda>importedItems.
                bind (liftResult
                        (mapThrowing (\<lambda>m. getElementContract ev importContentItems m importedItems)
                           (elements importContentItem))) (\<lambda>contracts.
                bind (request
                        (UpsertLanguageVariant (ci_codename upsertedContentItem)
                           (item_language importContentItem) contracts)
                        (\<lambda>h. cl_upsertLanguageVariant cl h (ci_codename upsertedContentItem)
                               (item_language importContentItem) contracts))
                  (\<lambda>upsertedLanguageVariant.
                bind (\<lambda>st. (Inr (), st\<lparr>upsertedLanguageVariants :=
                                          upsertedLanguageVariants st @ [upsertedLanguageVariant]\<rparr>))
                  (\<lambda>_.
                bind (processItem Upsert LanguageVariant
                        (ci_name upsertedContentItem @ '' | '' @ item_language importContentItem)
                        UpsertedVariantsRef (SourceItem importContentItem)
                        (Some (ci_id upsertedContentItem)) None
                        (Some (item_codename importContentItem))) (\<lambda>_.
                setWorkflowOfLanguageVariant ev cl importContentItem step upsertedContentItem
                  workflows))))))))"

definition variantFailed :: "importConfig \<Rightarrow> parsedContentItem \<Rightarrow> thrown \<Rightarrow> unit io" where
  "variantFailed cfg importContentItem error =
     (if skipFailedItems cfg
      then consoleLog (VariantFailed (item_codename importContentItem) (item_language importContentItem)
                         (errorMessage error))
      else throw error)"

definition importLanguageVariantStep ::
  "env \<Rightarrow> importConfig \<Rightarrow> client \<Rightarrow> parsedContentItem list \<Rightarrow> workflow list \<Rightarrow> parsedContentItem
     \<Rightarrow> unit io" where
  "importLanguageVariantStep ev cfg cl importContentItems workflows item =
     tryCatch (importLanguageVariantBody ev cl importContentItems workflows item) (variantFailed cfg item)"

definition importContentItemsAsync ::
  "env \<Rightarrow> importConfig \<Rightarrow> client \<Rightarrow> parsedContentItem list
     \<Rightarrow> (contentItem list \<times> languageVariant list) io" where
  "importContentItemsAsync ev cfg cl importContentItems =
     bind (\<lambda>st. (Inr (), st\<lparr>preparedItems := [], upsertedLanguageVariants := []\<rparr>)) (\<lambda>_.
     bind (request ListWorkflows (cl_listWorkflows cl)) (\<lambda>workflows.
     bind (request ListCollections (cl_listCollections cl)) (\<lambda>collections.
     bind (forEach importContentItems (importContentItemStep cfg cl collections)) (\<lambda>_.
     bind (forEach importContentItems (importLanguageVariantStep ev cfg cl importContentItems workflows))
       (\<lambda>_.
     (\<lambda>st. (Inr (preparedItems st, upsertedLanguageVariants st), st)))))))"

subsection \<open>The orchestrator\<close>

text \<open>
  The serialized source: \<open>src_metadata\<close> is \<^const>\<open>None\<close> when there is no metadata, and
  holds the recorded tool version otherwise.
\<close>

record importSource =
  src_metadata :: "string option option"
  src_assets :: "importAsset list"
  src_items :: "parsedContentItem list"

text \<open>
  Each loop of \<open>removeSkippedItemsFromImport\<close> runs over the array as it was when the loop
  started, and replaces the source's array by a filtered copy for every rejected entry.
\<close>

definition removeSkippedItemsFromImport :: "importConfig \<Rightarrow> importSource \<Rightarrow> importSource io" where
  "removeSkippedItemsFromImport cfg source =
     (let rejectedAssets = (case canImportAsset cfg of
                              None \<Rightarrow> []
                            | Some shouldImport \<Rightarrow> filter (\<lambda>a. \<not> shouldImport a) (src_assets source));
          assets' = foldl (\<lambda>acc asset. filter (\<lambda>m. assetId m \<noteq> assetId asset) acc)
                      (src_assets source) rejectedAssets;
          rejectedItems = (case canImportContentItem cfg of
                             None \<Rightarrow> []
                           | Some shouldImport \<Rightarrow> filter (\<lambda>i. \<not> shouldImport i) (src_items source));
          items' = foldl (\<lambda>acc item. filter (\<lambda>m. item_codename m \<noteq> item_codename item) acc)
                     (src_items source) rejectedItems
      in bind (if rejectedAssets \<noteq> [] then consoleLog (Message ''Removed assets from import'')
               else ret ()) (\<lambda>_.
         bind (if rejectedItems \<noteq> [] then consoleLog (Message ''Removed content items from import'')
               else ret ()) (\<lambda>_.
         ret (source\<lparr>src_assets := assets', src_items := items'\<rparr>))))"

definition handleImportError :: "thrown \<Rightarrow> 'a io" where
  "handleImportError error = bind (consoleLog (ErrorDump error)) (\<lambda>_. throw (handleError error))"

text \<open>The part of \<^verbatim>\<open>importAsync\<close> before the \<^verbatim>\<open>try\<close> block.\<close>

definition importPreamble :: "env \<Rightarrow> importConfig \<Rightarrow> client \<Rightarrow> importSource \<Rightarrow> importSource io" where
  "importPreamble ev cfg cl sourceData =
     bind (\<lambda>st. (Inr (), st\<lparr>ledger := []\<rparr>)) (\<lambda>_.
     bind (request ProjectInformation (cl_projectInformation cl)) (\<lambda>info.
     bind (consoleLog (Message (''Project '' @ fst info))) (\<lambda>_.
     bind (consoleLog (Message (''Environment '' @ snd info))) (\<lambda>_.
     bind (case src_metadata sourceData of
             None \<Rightarrow> ret ()
           | Some csvManagerVersion \<Rightarrow>
               if Some (version ev) \<noteq> csvManagerVersion then
                 bind (consoleLog (Warning ''WARNING: Version mismatch.'')) (\<lambda>_.
                 consoleLog (Warning ''Import may still succeed''))
               else ret ()) (\<lambda>_.
     removeSkippedItemsFromImport cfg sourceData)))))"

text \<open>The \<^verbatim>\<open>try\<close> block of \<^verbatim>\<open>importAsync\<close>: the stages, in their fixed order.\<close>

definition importStages :: "env \<Rightarrow> importConfig \<Rightarrow> client \<Rightarrow> importSource \<Rightarrow> unit io" where
  "importStages ev cfg cl sourceData =
     bind (if src_assets sourceData \<noteq> [] then
             bind (consoleLog (Message ''Importing assets'')) (\<lambda>_.
             bind (importAssetsAsync cl (src_assets sourceData)) (\<lambda>importedAssets.
             (\<lambda>st. (Inr (), st\<lparr>ledger := ledger st @ importedAssets\<rparr>))))
           else consoleLog (Message ''There are no assets to import'')) (\<lambda>_.
     bind (if src_items sourceData \<noteq> [] then
             bind (consoleLog (Message ''Importing content items'')) (\<lambda>_.
             bind (importContentItemsAsync ev cfg cl (src_items sourceData)) (\<lambda>_. ret ()))
           else consoleLog (Message ''There are no content items to import'')) (\<lambda>_.
     consoleLog (Message ''Finished import'')))"

definition importAsync :: "env \<Rightarrow> importConfig \<Rightarrow> client \<Rightarrow> importSource \<Rightarrow> importItemResult list io" where
  "importAsync ev cfg cl sourceData0 =
     bind (importPreamble ev cfg cl sourceData0) (\<lambda>sourceData.
     bind (tryCatch (importStages ev cfg cl sourceData) handleImportError) (\<lambda>_.
     (\<lambda>st. (Inr (ledger st), st))))"

section \<open>Vocabulary of the properties and example inputs\<close>


text \<open>A client that refuses every request; the examples override the operations they use.\<close>

definition refusingClient :: client where
  "refusingClient =
     \<lparr>cl_projectInformation = (\<lambda>h. Inl (JsError ''refused'')),
      cl_viewAsset = (\<lambda>h x. Inl (JsError ''refused'')),
      cl_uploadBinaryFile = (\<lambda>h d t f. Inl (JsError ''refused'')),
      cl_addAsset = (\<lambda>h f x. Inl (JsError ''refused'')),
      cl_listWorkflows = (\<lambda>h. Inl (JsError ''refused'')),
      cl_listCollections = (\<lambda>h. Inl (JsError ''refused'')),
      cl_viewContentItem = (\<lambda>h c. Inl (JsError ''refused'')),
      cl_addContentItem = (\<lambda>h n t c k. Inl (JsError ''refused'')),
      cl_upsertContentItem = (\<lambda>h c n k. Inl (JsError ''refused'')),
      cl_viewLanguageVariant = (\<lambda>h c l. Inl (JsError ''refused'')),
      cl_createNewVersion = (\<lambda>h c l. Inl (JsError ''refused'')),
      cl_changeWorkflowStep = (\<lambda>h c l s. Inl (JsError ''refused'')),
      cl_upsertLanguageVariant = (\<lambda>h c l e. Inl (JsError ''refused'')),
      cl_publishLanguageVariant = (\<lambda>h c l. Inl (JsError ''refused'')),
      cl_changeWorkflow = (\<lambda>h c l s w. Inl (JsError ''refused''))\<rparr>"

definition emptyState :: state where
  "emptyState =
     \<lparr>calls = [], console = [], ledger = [], preparedItems = [], upsertedLanguageVariants = []\<rparr>"

definition stepNamed :: "string \<Rightarrow> workflowStep" where
  "stepNamed c = \<lparr>step_id = ''id-'' @ c, step_codename = c\<rparr>"

definition workflowA :: workflow where
  "workflowA = \<lparr>wf_codename = ''default'', steps = [stepNamed ''draft'', stepNamed ''review''],
                 publishedStep = stepNamed ''published'', archivedStep = stepNamed ''archived''\<rparr>"

definition workflowB :: workflow where
  "workflowB = \<lparr>wf_codename = ''legal'', steps = [stepNamed ''legal_draft''],
                 publishedStep = stepNamed ''legal_published'',
                 archivedStep = stepNamed ''legal_archived''\<rparr>"

definition exampleEnv :: env where
  "exampleEnv = \<lparr>defaultWorkflowCodename = ''default'',
                  transformToImportValue = (\<lambda>v c t items sourceItems. Inr (Some (JStr v))),
                  version = ''0.0.11''\<rparr>"

text \<open>
  A global replace splits the text into the matches of the pattern and the characters
  between them; \<open>segments\<close> is that split, \<open>segmentText\<close> the text a segment covers and
  \<open>emit\<close> what the replace writes for it.
\<close>

datatype segment = Copied char | Matched string

function segments :: "string \<Rightarrow> string \<Rightarrow> segment list" where
  "segments lit [] = []"
| "segments lit (c # cs) =
     (case matchAt lit (c # cs) of
        Some (b, rest) \<Rightarrow> Matched b # segments lit rest
      | None \<Rightarrow> Copied c # segments lit cs)"
  by pat_completeness auto
termination
  by (relation "measure (\<lambda>(lit, s). length s)") (auto dest: matchAt_length)

fun segmentText :: "string \<Rightarrow> segment \<Rightarrow> string" where
  "segmentText lit (Copied c) = [c]"
| "segmentText lit (Matched b) = lit @ b @ [dq]"

fun emit :: "string \<Rightarrow> (string \<Rightarrow> string \<Rightarrow> string) \<Rightarrow> segment \<Rightarrow> string" where
  "emit lit cb (Copied c) = [c]"
| "emit lit cb (Matched b) = cb (lit @ b @ [dq]) b"

text \<open>The groups captured by the matches of a pattern.\<close>

definition captures :: "string \<Rightarrow> string \<Rightarrow> string list" where
  "captures lit s =
     concat (map (\<lambda>g. case g of Matched b \<Rightarrow> [b] | Copied c \<Rightarrow> []) (segments lit s))"

definition idMarkerNames :: "string list" where
  "idMarkerNames = [''data-item-id'', ''data-asset-id'', ''data-image-id'', ''data-id'']"


text \<open>
  A target value of the table is the import id of one of its entries. In a settled table
  no target value is translated to another value: looking it up by id finds nothing, an
  entry without an import id, or the value itself.
\<close>

definition targetValue :: "importItemResult list \<Rightarrow> string \<Rightarrow> bool" where
  "targetValue items b = list_ex (\<lambda>m. importId m = Some b) items"

definition settledTable :: "importItemResult list \<Rightarrow> bool" where
  "settledTable items =
     list_all (\<lambda>m. case importId m of
                      None \<Rightarrow> True
                    | Some v \<Rightarrow> (case tryFindNewId (Some v) items of
                                   None \<Rightarrow> True
                                 | Some v' \<Rightarrow> v' = [] \<or> v' = v)) items"

text \<open>
  A text in which every reference carries its translated target value: the value of
  every id-keyed marker is empty or a target value, and there is no codename marker with
  a value, since a codename is never a target value.
\<close>

definition translatedText :: "importItemResult list \<Rightarrow> string \<Rightarrow> bool" where
  "translatedText items s =
     (list_all (\<lambda>b. b = []) (captures (rx ''data-codename'') s)
      \<and> list_all (\<lambda>name. list_all (\<lambda>b. b = [] \<or> targetValue items b) (captures (rx name) s))
           idMarkerNames)"

text \<open>Objects have distinct keys, at every level of the tree.\<close>

fun distinctKeys :: "json \<Rightarrow> bool"
  and distinctKeysArray :: "json list \<Rightarrow> bool"
  and distinctKeysProps :: "(string \<times> json) list \<Rightarrow> bool" where
  "distinctKeys (JArr xs) = distinctKeysArray xs"
| "distinctKeys (JObj ps) = (distinct (map fst ps) \<and> distinctKeysProps ps)"
| "distinctKeys v = True"
| "distinctKeysArray [] = True"
| "distinctKeysArray (x # xs) = (distinctKeys x \<and> distinctKeysArray xs)"
| "distinctKeysProps [] = True"
| "distinctKeysProps ((k, v) # ps) = (distinctKeys v \<and> distinctKeysProps ps)"

text \<open>Every key that is \<^verbatim>\<open>id\<close> in lower case is written \<^verbatim>\<open>id\<close>, at every level of the tree.\<close>

fun plainIdKeys :: "json \<Rightarrow> bool"
  and plainIdKeysArray :: "json list \<Rightarrow> bool"
  and plainIdKeysProps :: "(string \<times> json) list \<Rightarrow> bool" where
  "plainIdKeys (JArr xs) = plainIdKeysArray xs"
| "plainIdKeys (JObj ps) = plainIdKeysProps ps"
| "plainIdKeys v = True"
| "plainIdKeysArray [] = True"
| "plainIdKeysArray (x # xs) = (plainIdKeys x \<and> plainIdKeysArray xs)"
| "plainIdKeysProps [] = True"
| "plainIdKeysProps ((k, v) # ps) =
     ((toLowerCase k = ''id'' \<longrightarrow> k = ''id'') \<and> plainIdKeys v \<and> plainIdKeysProps ps)"

text \<open>
  A tree in which every reference carries its translated target value: its rich-text
  strings are translated texts, and a string under the key \<^verbatim>\<open>id\<close> is a target value.
\<close>

fun translatedTree :: "importItemResult list \<Rightarrow> json \<Rightarrow> bool"
  and translatedArray :: "importItemResult list \<Rightarrow> json list \<Rightarrow> bool"
  and translatedProps :: "importItemResult list \<Rightarrow> (string \<times> json) list \<Rightarrow> bool" where
  "translatedTree items (JArr xs) = translatedArray items xs"
| "translatedTree items (JObj ps) = translatedProps items ps"
| "translatedTree items v = True"
| "translatedArray items [] = True"
| "translatedArray items (x # xs) = (translatedTree items x \<and> translatedArray items xs)"
| "translatedProps items [] = True"
| "translatedProps items ((k, v) # ps) =
     ((case v of
         JStr s \<Rightarrow> (isRichText s \<longrightarrow> translatedText items s)
                   \<and> (k = ''id'' \<longrightarrow> targetValue items s)
       | _ \<Rightarrow> True)
      \<and> translatedTree items v \<and> translatedProps items ps)"

text \<open>Ledger entries and texts of the examples.\<close>

definition tableEntry :: "string option \<Rightarrow> string option \<Rightarrow> string option \<Rightarrow> importItemResult" where
  "tableEntry oid ocn iid =
     \<lparr>imported = UpsertedVariantsRef, original = UpsertedVariantsRef, importId = iid,
      originalId = oid, originalCodename = ocn\<rparr>"

definition chainedTable :: "importItemResult list" where
  "chainedTable =
     [tableEntry (Some ''a'') None (Some ''b''), tableEntry (Some ''b'') None (Some ''c'')]"

definition linkTo :: "string \<Rightarrow> string" where
  "linkTo v = ''<a '' @ rx ''data-item-id'' @ v @ [dq] @ ''>''"

definition codenameLink :: "string \<Rightarrow> string" where
  "codenameLink v = ''<object '' @ rx ''data-codename'' @ v @ [dq] @ ''>''"

definition exampleAsset :: importAsset where
  "exampleAsset = \<lparr>assetId = ''asset-1'', filename = ''logo.png'', mimeType = Some ''image/png'',
                    binaryData = ''...''\<rparr>"

text \<open>A target project in which every asset looked up by external id exists.\<close>

definition existingAssetClient :: client where
  "existingAssetClient =
     refusingClient\<lparr>cl_viewAsset := (\<lambda>h externalId. Inr \<lparr>asset_id = ''target-'' @ externalId\<rparr>)\<rparr>"

text \<open>A settled table (\<open>s\<close> is translated to itself) and a payload translated by it.\<close>

definition settledExample :: "importItemResult list" where
  "settledExample =
     [tableEntry (Some ''a'') None (Some ''b''), tableEntry (Some ''s'') None (Some ''s'')]"

definition translatedPayload :: json where
  "translatedPayload =
     JObj [(''id'', JStr ''b''), (''body'', JStr (linkTo ''s'')), (''tags'', JArr [JStr ''n''])]"

definition contentItemEntry :: importItemResult where
  "contentItemEntry = tableEntry None (Some ''article'') (Some ''target-item-1'')"

definition exampleItem :: parsedContentItem where
  "exampleItem = \<lparr>item_codename = ''article'', item_name = ''Article'', item_type = ''post'',
                   item_collection = ''marketing'', item_language = ''en'',
                   workflow_step = Some ''published'', elements = []\<rparr>"

definition exampleCollections :: "collection list" where
  "exampleCollections = [\<lparr>col_id = ''col-default-id'', col_codename = ''default''\<rparr>,
                         \<lparr>col_id = ''col-marketing-id'', col_codename = ''marketing''\<rparr>]"

text \<open>
  A target project in which every content item looked up by codename exists, named
  \<open>Article\<close>, in the collection \<open>default\<close>.
\<close>

definition existingItemClient :: client where
  "existingItemClient =
     refusingClient\<lparr>cl_viewContentItem :=
       (\<lambda>h codename. Inr \<lparr>ci_id = ''target-item-1'', ci_name = ''Article'', ci_codename = codename,
                           ci_collection_id = ''col-default-id''\<rparr>)\<rparr>"

definition skippingConfig :: importConfig where
  "skippingConfig = \<lparr>skipFailedItems = True, canImportAsset = None, canImportContentItem = None\<rparr>"

definition abortingConfig :: importConfig where
  "abortingConfig = \<lparr>skipFailedItems = False, canImportAsset = None, canImportContentItem = None\<rparr>"


text \<open>The requests that move a language variant through its workflow.\<close>

fun isWorkflowOperation :: "call \<Rightarrow> bool" where
  "isWorkflowOperation (CreateNewVersionOfLanguageVariant c l) = True"
| "isWorkflowOperation (ChangeWorkflowStepOfLanguageVariant c l s) = True"
| "isWorkflowOperation (PublishLanguageVariant c l) = True"
| "isWorkflowOperation (ChangeWorkflowOfLanguageVariant c l s w) = True"
| "isWorkflowOperation other = False"

text \<open>The workflow operations requested between two states of a run.\<close>

definition workflowOperations :: "state \<Rightarrow> state \<Rightarrow> call list" where
  "workflowOperations st st' = filter isWorkflowOperation (drop (length (calls st)) (calls st'))"


definition serviceUnavailable :: thrown where
  "serviceUnavailable =
     KontentError \<lparr>ke_message = ''Service unavailable'', ke_errorCode = 0, ke_requestId = ''r-1'',
                   ke_validationErrors = [], ke_status = Some 503\<rparr>"

text \<open>
  A target project with the two example workflows and collections, in which every
  content item exists and every lookup of a language variant fails with status 503.
\<close>

definition failingVariantClient :: client where
  "failingVariantClient =
     existingItemClient\<lparr>cl_projectInformation := (\<lambda>h. Inr (''Target'', ''Production'')),
                        cl_listWorkflows := (\<lambda>h. Inr [workflowA, workflowB]),
                        cl_listCollections := (\<lambda>h. Inr exampleCollections),
                        cl_viewLanguageVariant := (\<lambda>h c l. Inl serviceUnavailable)\<rparr>"

definition exampleSource :: importSource where
  "exampleSource = \<lparr>src_metadata = None, src_assets = [], src_items = [exampleItem]\<rparr>"


definition preparedState :: state where
  "preparedState =
     emptyState\<lparr>preparedItems := [\<lparr>ci_id = ''target-item-1'', ci_name = ''Article'',
                                    ci_codename = ''article'', ci_collection_id = ''col-default-id''\<rparr>]\<rparr>"

text \<open>The ledger of the example run when the lookup of the language variant fails.\<close>

definition ledgerAtFailure :: "importItemResult list" where
  "ledgerAtFailure =
     [\<lparr>imported = TargetItem \<lparr>ci_id = ''target-item-1'', ci_name = ''Article'',
                                ci_codename = ''article'', ci_collection_id = ''col-default-id''\<rparr>,
       original = TargetItem \<lparr>ci_id = ''target-item-1'', ci_name = ''Article'',
                                ci_codename = ''article'', ci_collection_id = ''col-default-id''\<rparr>,
       importId = Some ''target-item-1'', originalId = None, originalCodename = Some ''article''\<rparr>,
      \<lparr>imported = SourceItem exampleItem, original = SourceItem exampleItem,
       importId = Some ''target-item-1'', originalId = None, originalCodename = Some ''article''\<rparr>]"



text \<open>
  One state extends another when its ledger and its requests continue those of the
  other; an operation is growing when it only ever extends the state it is run in.
\<close>

definition extends :: "state \<Rightarrow> state \<Rightarrow> bool" where
  "extends st st' = (prefix (ledger st) (ledger st') \<and> prefix (calls st) (calls st'))"

definition growing :: "'a io \<Rightarrow> bool" where
  "growing m = (\<forall>st. extends st (snd (m st)))"

text \<open>The state in which the loop over the assets starts.\<close>

definition assetStageStart :: "state \<Rightarrow> state" where
  "assetStageStart st = st\<lparr>console := console st @ [Message ''Importing assets''], ledger := []\<rparr>"

text \<open>The two ledger entries of an asset found in the target.\<close>

definition fetchedAndSkipped :: "importAsset \<Rightarrow> assetModel \<Rightarrow> importItemResult list" where
  "fetchedAndSkipped asset existing =
     [\<lparr>imported = TargetAsset existing, original = SourceAsset asset,
       importId = Some (asset_id existing), originalId = Some (assetId asset),
       originalCodename = None\<rparr>,
      \<lparr>imported = TargetAsset existing, original = SourceAsset asset,
       importId = Some (asset_id existing), originalId = Some (assetId asset),
       originalCodename = None\<rparr>]"

definition secondAsset :: importAsset where
  "secondAsset = \<lparr>assetId = ''asset-2'', filename = ''photo.jpg'', mimeType = None,
                   binaryData = ''...''\<rparr>"

text \<open>A source with two assets and no content items, and a target that has both assets.\<close>

definition assetsSource :: importSource where
  "assetsSource = \<lparr>src_metadata = None, src_assets = [secondAsset, exampleAsset], src_items = []\<rparr>"

definition assetsClient :: client where
  "assetsClient =
     existingAssetClient\<lparr>cl_projectInformation := (\<lambda>h. Inr (''Target'', ''Production''))\<rparr>"

section \<open>Verified properties\<close>

subsection \<open>Running the state-passing combinators\<close>

named_theorems run_simps

lemma ret_run [run_simps]: "ret x st = (Inr x, st)"
  by (simp add: ret_def)

lemma throw_run [run_simps]: "throw e st = (Inl e, st)"
  by (simp add: throw_def)

lemma bind_run [run_simps]:
  "bind m f st = (case m st of (Inl e, st') \<Rightarrow> (Inl e, st') | (Inr x, st') \<Rightarrow> f x st')"
  by (simp add: bind_def)

lemma tryCatch_run [run_simps]:
  "tryCatch m handler st = (case m st of (Inl e, st') \<Rightarrow> handler e st' | (Inr x, st') \<Rightarrow> (Inr x, st'))"
  by (simp add: tryCatch_def)

lemma request_run [run_simps]:
  "request c answer st = (answer (calls st), st\<lparr>calls := calls st @ [c]\<rparr>)"
  by (simp add: request_def)

lemma consoleLog_run [run_simps]:
  "consoleLog l st = (Inr (), st\<lparr>console := console st @ [l]\<rparr>)"
  by (simp add: consoleLog_def)

lemma liftResult_run [run_simps]:
  "liftResult (Inl e) st = (Inl e, st)" "liftResult (Inr x) st = (Inr x, st)"
  by (simp_all add: liftResult_def ret_def throw_def)

lemma processItem_run [run_simps]:
  "processItem action itemT title imp orig iid oid ocn st =
     (Inr (), st\<lparr>ledger := ledger st @ [\<lparr>imported = imp, original = orig, importId = iid,
                                           originalId = oid, originalCodename = ocn\<rparr>],
                  console := (if action = Fetch then console st else console st @ [ItemLog title itemT action])\<rparr>)"
  by (simp add: processItem_def Let_def)

lemma liftResult_pair: "liftResult r st = (r, st)"
  by (cases r) (simp_all add: run_simps)

subsection \<open>Workflow classification\<close>







subsection \<open>The translation table\<close>

lemma tryFindNewId_first:
  "\<forall>m\<in>set pre. originalId m \<noteq> ident \<Longrightarrow> originalId e = ident
     \<Longrightarrow> tryFindNewId ident (pre @ e # post) = importId e"
  by (induction pre) (auto simp: tryFindNewId_def)

lemma tryFindNewIdForCodename_first:
  "\<forall>m\<in>set pre. originalCodename m \<noteq> Some c \<Longrightarrow> originalCodename e = Some c
     \<Longrightarrow> tryFindNewIdForCodename c (pre @ e # post) = importId e"
  by (induction pre) (auto simp: tryFindNewIdForCodename_def)

lemma tryFindNewId_columns:
  "map originalId items = map originalId items' \<Longrightarrow> map importId items = map importId items'
     \<Longrightarrow> tryFindNewId ident items = tryFindNewId ident items'"
proof (induction items arbitrary: items')
  case Nil
  then show ?case by simp
next
  case (Cons a items)
  then obtain b rest where items': "items' = b # rest" by (cases items') auto
  from Cons.prems items' have heads: "originalId a = originalId b" "importId a = importId b"
    and tails: "map originalId items = map originalId rest" "map importId items = map importId rest"
    by simp_all
  from Cons.IH[OF tails] have "tryFindNewId ident items = tryFindNewId ident rest" .
  with heads show ?case unfolding items' by (simp add: tryFindNewId_def)
qed

lemma tryFindNewIdForCodename_columns:
  "map originalCodename items = map originalCodename items'
     \<Longrightarrow> map importId items = map importId items'
     \<Longrightarrow> tryFindNewIdForCodename c items = tryFindNewIdForCodename c items'"
proof (induction items arbitrary: items')
  case Nil
  then show ?case by simp
next
  case (Cons a items)
  then obtain b rest where items': "items' = b # rest" by (cases items') auto
  from Cons.prems items' have heads: "originalCodename a = originalCodename b" "importId a = importId b"
    and tails: "map originalCodename items = map originalCodename rest"
      "map importId items = map importId rest"
    by simp_all
  from Cons.IH[OF tails] have "tryFindNewIdForCodename c items = tryFindNewIdForCodename c rest" .
  with heads show ?case unfolding items' by (simp add: tryFindNewIdForCodename_def)
qed

lemma processItem_ledger:
  "ledger (snd (processItem action itemT title imp orig iid oid ocn st))
     = ledger st @ [\<lparr>imported = imp, original = orig, importId = iid, originalId = oid,
                     originalCodename = ocn\<rparr>]"
  by (simp add: processItem_def Let_def)

text \<open>
  C9, as amended. The table is the ledger, an append-only list: registering an entry
  appends it and changes no earlier entry, and several entries may carry the same
  original id. Resolution by id returns the import id of the first entry with that
  original id, and resolution by codename that of the first entry with that original
  codename, whatever is registered later. Resolution by id depends on the original ids
  and import ids of the entries only, resolution by codename on the original codenames
  and import ids only.
\<close>

theorem first_registration_wins:
  "ledger (snd (processItem action itemT title imp orig iid oid ocn st))
     = ledger st @ [\<lparr>imported = imp, original = orig, importId = iid, originalId = oid,
                     originalCodename = ocn\<rparr>]
   \<and> ((\<forall>m\<in>set pre. originalId m \<noteq> ident) \<and> originalId e = ident
        \<longrightarrow> tryFindNewId ident (pre @ e # post) = importId e)
   \<and> ((\<forall>m\<in>set pre. originalCodename m \<noteq> Some c) \<and> originalCodename e = Some c
        \<longrightarrow> tryFindNewIdForCodename c (pre @ e # post) = importId e)
   \<and> (map originalId items = map originalId items' \<and> map importId items = map importId items'
        \<longrightarrow> tryFindNewId ident items = tryFindNewId ident items')
   \<and> (map originalCodename items = map originalCodename items'
        \<and> map importId items = map importId items'
        \<longrightarrow> tryFindNewIdForCodename c items = tryFindNewIdForCodename c items')"
proof (intro conjI impI)
  show "ledger (snd (processItem action itemT title imp orig iid oid ocn st))
          = ledger st @ [\<lparr>imported = imp, original = orig, importId = iid, originalId = oid,
                          originalCodename = ocn\<rparr>]"
    by (rule processItem_ledger)
next
  assume "(\<forall>m\<in>set pre. originalId m \<noteq> ident) \<and> originalId e = ident"
  then show "tryFindNewId ident (pre @ e # post) = importId e"
    using tryFindNewId_first [of pre ident e post] by blast
next
  assume "(\<forall>m\<in>set pre. originalCodename m \<noteq> Some c) \<and> originalCodename e = Some c"
  then show "tryFindNewIdForCodename c (pre @ e # post) = importId e"
    using tryFindNewIdForCodename_first [of pre c e post] by blast
next
  assume "map originalId items = map originalId items' \<and> map importId items = map importId items'"
  then show "tryFindNewId ident items = tryFindNewId ident items'"
    using tryFindNewId_columns [of items items' ident] by blast
next
  assume "map originalCodename items = map originalCodename items'
            \<and> map importId items = map importId items'"
  then show "tryFindNewIdForCodename c items = tryFindNewIdForCodename c items'"
    using tryFindNewIdForCodename_columns [of items items' c] by blast
qed

theorem first_registration_wins_witness:
  "tryFindNewId (Some ''a'')
     ([tableEntry (Some ''z'') None (Some ''y'')] @ tableEntry (Some ''a'') (Some ''n'') (Some ''first'')
        # [tableEntry (Some ''a'') None (Some ''second'')]) = Some ''first''
   \<and> tryFindNewIdForCodename ''n''
     ([tableEntry (Some ''z'') None (Some ''y'')] @ tableEntry (Some ''a'') (Some ''n'') (Some ''first'')
        # [tableEntry (Some ''a'') None (Some ''second'')]) = Some ''first''
   \<and> tryFindNewId (Some ''a'') [tableEntry (Some ''a'') (Some ''n'') (Some ''first'')]
       = tryFindNewId (Some ''a'') [tableEntry (Some ''a'') (Some ''other'') (Some ''first'')]
   \<and> tryFindNewIdForCodename ''n'' [tableEntry (Some ''a'') (Some ''n'') (Some ''first'')]
       = tryFindNewIdForCodename ''n'' [tableEntry (Some ''b'') (Some ''n'') (Some ''first'')]"
proof -
  let ?pre = "[tableEntry (Some ''z'') None (Some ''y'')]"
  let ?e = "tableEntry (Some ''a'') (Some ''n'') (Some ''first'')"
  let ?post = "[tableEntry (Some ''a'') None (Some ''second'')]"
  note inst = first_registration_wins
    [where pre = ?pre and ident = "Some ''a''" and e = ?e and post = ?post and c = "''n''"
       and items = "[?e]" and items' = "[tableEntry (Some ''a'') (Some ''other'') (Some ''first'')]"]
  note inst2 = first_registration_wins
    [where c = "''n''" and items = "[?e]"
       and items' = "[tableEntry (Some ''b'') (Some ''n'') (Some ''first'')]"]
  have h1: "(\<forall>m\<in>set ?pre. originalId m \<noteq> Some ''a'') \<and> originalId ?e = Some ''a''"
    by (simp add: tableEntry_def)
  have h2: "(\<forall>m\<in>set ?pre. originalCodename m \<noteq> Some ''n'') \<and> originalCodename ?e = Some ''n''"
    by (simp add: tableEntry_def)
  have h3: "map originalId [?e] = map originalId [tableEntry (Some ''a'') (Some ''other'') (Some ''first'')]
            \<and> map importId [?e] = map importId [tableEntry (Some ''a'') (Some ''other'') (Some ''first'')]"
    by (simp add: tableEntry_def)
  have h4: "map originalCodename [?e] = map originalCodename [tableEntry (Some ''b'') (Some ''n'') (Some ''first'')]
            \<and> map importId [?e] = map importId [tableEntry (Some ''b'') (Some ''n'') (Some ''first'')]"
    by (simp add: tableEntry_def)
  have i: "importId ?e = Some ''first''" by (simp add: tableEntry_def)
  from inst h1 have c1: "tryFindNewId (Some ''a'') (?pre @ ?e # ?post) = importId ?e" by blast
  from inst h2 have c2: "tryFindNewIdForCodename ''n'' (?pre @ ?e # ?post) = importId ?e" by blast
  from inst h3 have c3: "tryFindNewId (Some ''a'') [?e]
      = tryFindNewId (Some ''a'') [tableEntry (Some ''a'') (Some ''other'') (Some ''first'')]" by blast
  from inst2 h4 have c4: "tryFindNewIdForCodename ''n'' [?e]
      = tryFindNewIdForCodename ''n'' [tableEntry (Some ''b'') (Some ''n'') (Some ''first'')]" by blast
  from c1 c2 c3 c4 i show ?thesis by (simp only:) 
qed

text \<open>
  An asset that exists in the target is registered twice, as fetched and as skipped: the
  ledger holds two entries with the same original id.
\<close>

theorem existing_asset_registered_twice:
  "fst (importAssetsAsync existingAssetClient [exampleAsset] emptyState)
     = Inr [\<lparr>imported = TargetAsset \<lparr>asset_id = ''target-asset-1''\<rparr>, original = SourceAsset exampleAsset,
             importId = Some ''target-asset-1'', originalId = Some ''asset-1'', originalCodename = None\<rparr>,
            \<lparr>imported = TargetAsset \<lparr>asset_id = ''target-asset-1''\<rparr>, original = SourceAsset exampleAsset,
             importId = Some ''target-asset-1'', originalId = Some ''asset-1'', originalCodename = None\<rparr>]"
  by (simp add: importAssetsAsync_def importAsset_def checkExistingAsset_def run_simps
      existingAssetClient_def refusingClient_def emptyState_def exampleAsset_def)

subsection \<open>The rich-text rewriter\<close>

lemma takeCapture_text: "takeCapture s = Some (b, rest) \<Longrightarrow> s = b @ dq # rest"
  by (induction s arbitrary: b rest) (auto split: if_splits option.splits)

lemma matchAt_text: "matchAt lit s = Some (b, rest) \<Longrightarrow> s = lit @ b @ dq # rest"
  by (auto simp: matchAt_def prefix_def split: if_splits dest!: takeCapture_text)

lemma segments_text: "concat (map (segmentText lit) (segments lit s)) = s"
proof (induction lit s rule: segments.induct)
  case (1 lit)
  then show ?case by simp
next
  case (2 lit c cs)
  show ?case
  proof (cases "matchAt lit (c # cs)")
    case None
    with 2 show ?thesis by simp
  next
    case (Some p)
    obtain b rest where p: "p = (b, rest)" by (cases p)
    from Some p have whole: "c # cs = lit @ b @ dq # rest" by (simp add: matchAt_text)
    from Some p have seg: "segments lit (c # cs) = Matched b # segments lit rest" by simp
    have ih: "concat (map (segmentText lit) (segments lit rest)) = rest"
      using 2 Some p by blast
    have "concat (map (segmentText lit) (segments lit (c # cs))) = lit @ b @ dq # rest"
      unfolding seg using ih by simp
    with whole show ?thesis by simp
  qed
qed

lemma replaceRegex_segments:
  "replaceRegex lit cb s = concat (map (emit lit cb) (segments lit s))"
proof (induction lit s rule: segments.induct)
  case (1 lit)
  then show ?case by simp
next
  case (2 lit c cs)
  then show ?case by (cases "matchAt lit (c # cs)") auto
qed

lemma replaceRegex_unchanged:
  assumes "\<And>b. Matched b \<in> set (segments lit s) \<Longrightarrow> cb (lit @ b @ [dq]) b = lit @ b @ [dq]"
  shows "replaceRegex lit cb s = s"
proof -
  have "map (emit lit cb) (segments lit s) = map (segmentText lit) (segments lit s)"
  proof (rule map_cong[OF refl])
    fix x assume mem: "x \<in> set (segments lit s)"
    show "emit lit cb x = segmentText lit x"
    proof (cases x)
      case (Copied c)
      then show ?thesis by simp
    next
      case (Matched b)
      with mem assms[of b] show ?thesis by simp
    qed
  qed
  then show ?thesis by (simp only: replaceRegex_segments segments_text)
qed

lemma captures_iff: "b \<in> set (captures lit s) = (Matched b \<in> set (segments lit s))"
  by (auto simp: captures_def split: segment.splits)



lemma settledTable_target:
  assumes "settledTable items" and "targetValue items b"
  shows "tryFindNewId (Some b) items = None \<or> tryFindNewId (Some b) items = Some []
         \<or> tryFindNewId (Some b) items = Some b"
proof -
  from assms(2) obtain m where m: "m \<in> set items" "importId m = Some b"
    by (auto simp: targetValue_def list_ex_iff)
  with assms(1) show ?thesis
    by (cases "tryFindNewId (Some b) items") (auto simp: settledTable_def list_all_iff)
qed

lemma idCallback_target:
  assumes "settledTable items" and "b = [] \<or> targetValue items b"
  shows "idCallback name items (rx name @ b @ [dq]) b = rx name @ b @ [dq]"
proof (cases "b = []")
  case True
  then show ?thesis by (simp add: idCallback_def)
next
  case False
  with assms(2) have "targetValue items b" by simp
  from settledTable_target [OF assms(1) this] show ?thesis
    by (auto simp: idCallback_def rx_def)
qed

lemma replaceIdWithRegex_translated:
  assumes "settledTable items"
    and "\<forall>b\<in>set (captures (rx name) s). b = [] \<or> targetValue items b"
  shows "replaceIdWithRegex (rx name) s name items = s"
  unfolding replaceIdWithRegex_def
proof (rule replaceRegex_unchanged)
  fix b assume "Matched b \<in> set (segments (rx name) s)"
  with assms(2) have "b = [] \<or> targetValue items b" by (simp add: captures_iff)
  with assms(1) show "idCallback name items (rx name @ b @ [dq]) b = rx name @ b @ [dq]"
    by (rule idCallback_target)
qed

lemma replaceCodenameWithRegex_unchanged:
  "\<forall>b\<in>set (captures lit s). b = [] \<Longrightarrow> replaceCodenameWithRegex lit s attr items = s"
  unfolding replaceCodenameWithRegex_def
  by (rule replaceRegex_unchanged) (auto simp: captures_iff codenameCallback_def)

lemma replaceIdsInRichText_translated:
  "settledTable items \<Longrightarrow> translatedText items s \<Longrightarrow> replaceIdsInRichText s items = s"
  by (simp add: translatedText_def replaceIdsInRichText_def idMarkerNames_def list_all_iff
      replaceIdWithRegex_translated replaceCodenameWithRegex_unchanged)





named_theorems rich_eval

lemmas [rich_eval] =
  replaceIdsInRichText_def replaceCodenameWithRegex_def replaceIdWithRegex_def matchAt_def
  rx_def dq_def isLineTerminator_def idCallback_def codenameCallback_def tryFindNewId_def
  tryFindNewIdForCodename_def codenameLink_def linkTo_def chainedTable_def tableEntry_def Let_def




text \<open>The rewriter on a text with one marker whose value does not resolve.\<close>

lemma unresolved_marker_examples:
  "replaceIdsInRichText (codenameLink ''x'') chainedTable
     = ''<object '' @ rx ''data-id'' @ ''ahoj'' @ [dq] @ ''>''
   \<and> replaceIdsInRichText (linkTo ''x'') chainedTable = linkTo ''x''"
  by (simp add: rich_eval)


subsection \<open>The tree walk\<close>

lemma setProp_same: "map_of ps k = Some v \<Longrightarrow> setProp k v ps = ps"
  by (induction ps) (auto split: if_splits)

lemma walkArray_fixed:
  "(\<And>x. x \<in> set xs \<Longrightarrow> distinctKeys x \<Longrightarrow> plainIdKeys x \<Longrightarrow> translatedTree items x
        \<Longrightarrow> replaceIdReferencesWithNewId x items = x)
     \<Longrightarrow> distinctKeysArray xs \<Longrightarrow> plainIdKeysArray xs \<Longrightarrow> translatedArray items xs
     \<Longrightarrow> walkArray xs items = xs"
  by (induction xs) auto

lemma id_property_kept:
  assumes "settledTable items" and "map_of cur ''id'' = Some v"
    and "\<And>s. v = JStr s \<Longrightarrow> targetValue items s"
  shows "(case tryFindNewIdOfValue (map_of cur ''id'') items of
            Some newId \<Rightarrow> if newId \<noteq> [] then setProp ''id'' (JStr newId) cur else cur
          | None \<Rightarrow> cur) = cur"
proof (cases v)
  case (JStr s)
  with assms(3) have "targetValue items s" by simp
  from settledTable_target [OF assms(1) this] assms(2) JStr show ?thesis
    by (auto simp: setProp_same)
qed (simp_all add: assms(2))

lemma walkKeys_fixed:
  assumes "settledTable items"
    and "\<And>k v. (k, v) \<in> set es \<Longrightarrow> distinctKeys v \<Longrightarrow> plainIdKeys v \<Longrightarrow> translatedTree items v
             \<Longrightarrow> replaceIdReferencesWithNewId v items = v"
    and "distinctKeysProps es" and "plainIdKeysProps es" and "translatedProps items es"
    and "\<And>k v. (k, v) \<in> set es \<Longrightarrow> map_of cur k = Some v"
  shows "walkKeys es cur items = cur"
  using assms(2-)
proof (induction es)
  case Nil
  then show ?case by simp
next
  case (Cons p es)
  obtain key v0 where p: "p = (key, v0)" by (cases p)
  have val: "map_of cur key = Some v0" using Cons.prems(5)[of key v0] p by simp
  have fixed: "replaceIdReferencesWithNewId v0 items = v0"
    using Cons.prems(1)[of key v0] Cons.prems(2,3,4) p by simp
  have rich: "\<And>s. v0 = JStr s \<Longrightarrow> isRichText s \<Longrightarrow> replaceIdsInRichText s items = s"
    using Cons.prems(4) p assms(1) by (auto simp: replaceIdsInRichText_translated)
  have plain: "toLowerCase key = ''id'' \<Longrightarrow> key = ''id''"
    using Cons.prems(3) p by simp
  have target: "\<And>s. key = ''id'' \<Longrightarrow> v0 = JStr s \<Longrightarrow> targetValue items s"
    using Cons.prems(4) p by simp
  have step: "walkKeys (p # es) cur items = walkKeys es cur items"
  proof -
    have c1: "(case v0 of
                 JStr s \<Rightarrow> if isRichText s then setProp key (JStr (replaceIdsInRichText s items)) cur
                           else cur
               | _ \<Rightarrow> cur) = cur"
      using rich val by (cases v0) (auto simp: setProp_same)
    have c2: "(if toLowerCase key = ''id'' then
                 (case tryFindNewIdOfValue (map_of cur ''id'') items of
                    Some newId \<Rightarrow> if newId \<noteq> [] then setProp ''id'' (JStr newId) cur else cur
                  | None \<Rightarrow> cur)
               else cur) = cur"
    proof (cases "toLowerCase key = ''id''")
      case True
      with plain have key: "key = ''id''" by simp
      with val have "map_of cur ''id'' = Some v0" by simp
      from id_property_kept [OF assms(1) this] target key True show ?thesis by simp
    next
      case False
      then show ?thesis by simp
    qed
    have c3: "(if isObject v0 then setProp key (replaceIdReferencesWithNewId v0 items) cur else cur) = cur"
      using fixed val by (simp add: setProp_same)
    show ?thesis unfolding p by (simp only: walkKeys.simps Let_def val option.case c1 c2 c3)
  qed
  have "walkKeys es cur items = cur"
  proof (rule Cons.IH)
    show "\<And>k v. (k, v) \<in> set es \<Longrightarrow> distinctKeys v \<Longrightarrow> plainIdKeys v \<Longrightarrow> translatedTree items v
             \<Longrightarrow> replaceIdReferencesWithNewId v items = v"
      using Cons.prems(1) by (meson list.set_intros(2))
    show "distinctKeysProps es" using Cons.prems(2) p by simp
    show "plainIdKeysProps es" using Cons.prems(3) p by simp
    show "translatedProps items es" using Cons.prems(4) p by simp
    show "\<And>k v. (k, v) \<in> set es \<Longrightarrow> map_of cur k = Some v" using Cons.prems(5) by simp
  qed
  with step show ?case by simp
qed

lemma walk_fixed:
  "settledTable items \<Longrightarrow> distinctKeys d \<Longrightarrow> plainIdKeys d \<Longrightarrow> translatedTree items d
     \<Longrightarrow> replaceIdReferencesWithNewId d items = d"
proof (induction d)
  case (JArr xs)
  then show ?case using walkArray_fixed[of xs items] by simp
next
  case (JObj ps)
  have "walkKeys ps ps items = ps"
  proof (rule walkKeys_fixed)
    show "settledTable items" by (rule JObj.prems(1))
    show "\<And>k v. (k, v) \<in> set ps \<Longrightarrow> distinctKeys v \<Longrightarrow> plainIdKeys v \<Longrightarrow> translatedTree items v
             \<Longrightarrow> replaceIdReferencesWithNewId v items = v"
      using JObj.IH JObj.prems(1) by force
    show "distinctKeysProps ps" "plainIdKeysProps ps" "translatedProps items ps"
      using JObj.prems by simp_all
    show "\<And>k v. (k, v) \<in> set ps \<Longrightarrow> map_of ps k = Some v" using JObj.prems by simp
  qed
  then show ?case by simp
qed simp_all

text \<open>
  C6, as amended. With a settled table, in which no import id is translated further,
  the rewrite is a no-op on a payload in which every reference already carries its
  translated target value: a text whose id-keyed markers carry import ids of the table
  and which has no codename marker with a value is returned as it is, and so is a tree
  whose rich-text strings are such texts and whose \<^verbatim>\<open>id\<close> strings are import ids of
  the table. The tree has distinct keys in each object, and its keys that are
  \<^verbatim>\<open>id\<close> in lower case are written \<^verbatim>\<open>id\<close>.
\<close>

theorem rewrite_of_translated_payload_is_noop:
  "(settledTable items \<and> translatedText items s \<longrightarrow> replaceIdsInRichText s items = s)
   \<and> (settledTable items \<and> distinctKeys d \<and> plainIdKeys d \<and> translatedTree items d
        \<longrightarrow> replaceIdReferencesWithNewId d items = d)"
  using replaceIdsInRichText_translated [of items s] walk_fixed [of items d] by blast

lemma translated_examples:
  "settledTable settledExample \<and> translatedText settledExample (linkTo ''b'')
   \<and> distinctKeys translatedPayload \<and> plainIdKeys translatedPayload
   \<and> translatedTree settledExample translatedPayload"
  by (simp add: settledTable_def settledExample_def translatedText_def targetValue_def
      captures_def idMarkerNames_def translatedPayload_def matchAt_def rx_def dq_def
      isLineTerminator_def linkTo_def tableEntry_def tryFindNewId_def toLowerCase_def
      toLowerChar_def isRichText_def)

theorem rewrite_of_translated_payload_is_noop_witness:
  "settledTable settledExample \<and> translatedText settledExample (linkTo ''b'')
   \<and> replaceIdsInRichText (linkTo ''b'') settledExample = linkTo ''b''
   \<and> distinctKeys translatedPayload \<and> plainIdKeys translatedPayload
   \<and> translatedTree settledExample translatedPayload
   \<and> replaceIdReferencesWithNewId translatedPayload settledExample = translatedPayload"
  using rewrite_of_translated_payload_is_noop [of settledExample "linkTo ''b''" translatedPayload]
    translated_examples
  by blast

text \<open>
  With a table in which the import id of one entry is the original id of another, a
  payload that carries translated values is rewritten again, a text and an \<^verbatim>\<open>id\<close>
  property alike. A codename marker is rewritten whatever value it carries.
\<close>

theorem rewrite_not_idempotent:
  "replaceIdsInRichText (linkTo ''a'') chainedTable = linkTo ''b''
   \<and> targetValue chainedTable ''b''
   \<and> replaceIdsInRichText (linkTo ''b'') chainedTable = linkTo ''c''
   \<and> replaceIdsInRichText (replaceIdsInRichText (linkTo ''a'') chainedTable) chainedTable
        \<noteq> replaceIdsInRichText (linkTo ''a'') chainedTable
   \<and> replaceIdReferencesWithNewId (JObj [(''id'', JStr ''a'')]) chainedTable = JObj [(''id'', JStr ''b'')]
   \<and> replaceIdReferencesWithNewId (JObj [(''id'', JStr ''b'')]) chainedTable = JObj [(''id'', JStr ''c'')]
   \<and> targetValue settledExample ''b''
   \<and> replaceIdsInRichText (codenameLink ''b'') settledExample
       = ''<object '' @ rx ''data-id'' @ ''ahoj'' @ [dq] @ ''>''"
  by (simp add: rich_eval toLowerCase_def toLowerChar_def isRichText_def targetValue_def
      settledExample_def)

text \<open>
  C10. For an object with the key \<^verbatim>\<open>Id\<close> and no key \<^verbatim>\<open>id\<close>, the walk looks up
  \<^verbatim>\<open>data.id\<close>, which is \<^verbatim>\<open>undefined\<close>, finds the first ledger entry without an original
  id (every content item entry is one) and adds a property \<^verbatim>\<open>id\<close> to the object.
\<close>

theorem walk_adds_id_property:
  "replaceIdReferencesWithNewId (JObj [(''Id'', JStr ''a'')]) [contentItemEntry]
     = JObj [(''Id'', JStr ''a''), (''id'', JStr ''target-item-1'')]"
  by (simp add: contentItemEntry_def tableEntry_def tryFindNewId_def toLowerCase_def
      toLowerChar_def isRichText_def)

theorem walk_adds_id_property_witness:
  "replaceIdReferencesWithNewId (JObj [(''Id'', JStr ''a'')]) [contentItemEntry]
     \<noteq> JObj [(''Id'', JStr ''a'')]"
  using walk_adds_id_property by simp

subsection \<open>Assets\<close>

named_theorems growing_intros

lemma extends_refl: "extends st st"
  by (simp add: extends_def)

lemma extends_trans: "extends a b \<Longrightarrow> extends b c \<Longrightarrow> extends a c"
  by (auto simp: extends_def)

lemma growing_ret [growing_intros]: "growing (ret x)"
  by (simp add: growing_def extends_def run_simps)

lemma growing_throw [growing_intros]: "growing (throw e)"
  by (simp add: growing_def extends_def run_simps)

lemma growing_request [growing_intros]: "growing (request c answer)"
  by (simp add: growing_def extends_def run_simps)

lemma growing_consoleLog [growing_intros]: "growing (consoleLog l)"
  by (simp add: growing_def extends_def run_simps)

lemma growing_liftResult [growing_intros]: "growing (liftResult r)"
  by (simp add: growing_def extends_def liftResult_pair)

lemma growing_processItem [growing_intros]:
  "growing (processItem action itemT title imp orig iid oid ocn)"
  by (simp add: growing_def extends_def run_simps)

lemma growing_state [growing_intros]:
  "(\<And>st. extends st (h st)) \<Longrightarrow> growing (\<lambda>st. (f st, h st))"
  by (simp add: growing_def)

lemma growing_bind [growing_intros]:
  assumes "growing m" and "\<And>x. growing (f x)"
  shows "growing (bind m f)"
  unfolding growing_def
proof
  fix st
  obtain r st1 where m: "m st = (r, st1)" by (cases "m st")
  from assms(1) m have e1: "extends st st1" by (auto simp: growing_def dest: spec[of _ st])
  show "extends st (snd (bind m f st))"
  proof (cases r)
    case (Inl e)
    with m e1 show ?thesis by (simp add: run_simps)
  next
    case (Inr x)
    from assms(2)[of x] have "extends st1 (snd (f x st1))" by (simp add: growing_def)
    with e1 have "extends st (snd (f x st1))" by (rule extends_trans)
    with m Inr show ?thesis by (simp add: run_simps)
  qed
qed

lemma growing_tryCatch [growing_intros]:
  assumes "growing m" and "\<And>e. growing (handler e)"
  shows "growing (tryCatch m handler)"
  unfolding growing_def
proof
  fix st
  obtain r st1 where m: "m st = (r, st1)" by (cases "m st")
  from assms(1) m have e1: "extends st st1" by (auto simp: growing_def dest: spec[of _ st])
  show "extends st (snd (tryCatch m handler st))"
  proof (cases r)
    case (Inr x)
    with m e1 show ?thesis by (simp add: run_simps)
  next
    case (Inl e)
    from assms(2)[of e] have "extends st1 (snd (handler e st1))" by (simp add: growing_def)
    with e1 have "extends st (snd (handler e st1))" by (rule extends_trans)
    with m Inl show ?thesis by (simp add: run_simps)
  qed
qed

lemma growing_if [growing_intros]: "growing m \<Longrightarrow> growing n \<Longrightarrow> growing (if b then m else n)"
  by simp

lemma growing_case_option [growing_intros]:
  "growing m \<Longrightarrow> (\<And>y. growing (n y)) \<Longrightarrow> growing (case x of None \<Rightarrow> m | Some y \<Rightarrow> n y)"
  by (cases x) simp_all

lemma growing_case_list [growing_intros]:
  "growing m \<Longrightarrow> (\<And>y ys. growing (n y ys)) \<Longrightarrow> growing (case xs of [] \<Rightarrow> m | y # ys \<Rightarrow> n y ys)"
  by (cases xs) simp_all

lemma growing_forEach [growing_intros]: "(\<And>x. growing (body x)) \<Longrightarrow> growing (forEach xs body)"
  by (induction xs) (auto intro!: growing_intros)

lemma growing_importAsset [growing_intros]: "growing (importAsset cl asset)"
  unfolding importAsset_def checkExistingAsset_def
  by (intro growing_intros)

lemma growing_prepareContentItem [growing_intros]:
  "growing (prepareContentItemForImportAsync cl item)"
  unfolding prepareContentItemForImportAsync_def
  by (intro growing_intros)

lemma growing_importContentItemStep [growing_intros]:
  "growing (importContentItemStep cfg cl collections item)"
  unfolding importContentItemStep_def importContentItemBody_def itemFailed_def
  by (intro growing_intros) (simp add: extends_def)

lemma growing_prepareLanguageVariant [growing_intros]:
  "growing (prepareLanguageVariantForImportAsync ev cl item workflows)"
  unfolding prepareLanguageVariantForImportAsync_def
  by (intro growing_intros)

lemma growing_setWorkflow [growing_intros]:
  "growing (setWorkflowOfLanguageVariant ev cl item step prepared workflows)"
  unfolding setWorkflowOfLanguageVariant_def
  by (intro growing_intros)

lemma growing_importLanguageVariantStep [growing_intros]:
  "growing (importLanguageVariantStep ev cfg cl items workflows item)"
  unfolding importLanguageVariantStep_def importLanguageVariantBody_def variantFailed_def
  by (intro growing_intros) (simp_all add: extends_def)

lemma growing_importContentItemsAsync [growing_intros]:
  "growing (importContentItemsAsync ev cfg cl items)"
  unfolding importContentItemsAsync_def
  by (intro growing_intros) (simp_all add: extends_def)

lemma forEach_append:
  "forEach (xs @ ys) body st =
     (case forEach xs body st of (Inl e, st') \<Rightarrow> (Inl e, st') | (Inr u, st') \<Rightarrow> forEach ys body st')"
proof (induction xs arbitrary: st)
  case Nil
  then show ?case by (simp add: run_simps)
next
  case (Cons x xs)
  obtain r st1 where x: "body x st = (r, st1)" by (cases "body x st")
  show ?case
  proof (cases r)
    case (Inl e)
    with x show ?thesis by (simp add: run_simps)
  next
    case (Inr u)
    with x Cons.IH[of st1] show ?thesis by (simp add: run_simps)
  qed
qed

lemma growingD: "growing m \<Longrightarrow> m st = (r, st') \<Longrightarrow> extends st st'"
  by (auto simp: growing_def dest: spec[of _ st])

lemma existing_asset_step:
  assumes "cl_viewAsset cl (calls st) (assetId asset) = Inr found"
    and "cl_viewAsset cl (calls st @ [ViewAsset (assetId asset)]) (assetId asset) = Inr existing"
  shows "importAsset cl asset st =
     (Inr (), st\<lparr>calls := calls st @ [ViewAsset (assetId asset), ViewAsset (assetId asset)],
                  ledger := ledger st @ fetchedAndSkipped asset existing,
                  console := console st @ [ItemLog (filename asset) Asset SkipUpdate]\<rparr>)"
  using assms by (simp add: importAsset_def checkExistingAsset_def run_simps fetchedAndSkipped_def)

lemma importPreamble_ledger:
  "importPreamble ev cfg cl source st = (Inr sourceData, stP) \<Longrightarrow> ledger stP = []"
  by (auto simp: importPreamble_def removeSkippedItemsFromImport_def run_simps Let_def
      split: sum.splits option.splits if_splits)

lemma importAsync_returns:
  assumes "importPreamble ev cfg cl source st0 = (Inr sourceData, stP)"
    and "importAsync ev cfg cl source st0 = (Inr result, stF)"
  shows "importStages ev cfg cl sourceData stP = (Inr (), stF) \<and> result = ledger stF"
proof -
  obtain r stS where s: "importStages ev cfg cl sourceData stP = (r, stS)"
    by (cases "importStages ev cfg cl sourceData stP")
  show ?thesis
  proof (cases r)
    case (Inl e)
    with assms s show ?thesis by (simp add: importAsync_def handleImportError_def run_simps)
  next
    case (Inr u)
    with assms s show ?thesis by (auto simp: importAsync_def handleImportError_def run_simps)
  qed
qed

lemma importStages_assets:
  assumes "src_assets sourceData \<noteq> []"
    and "importStages ev cfg cl sourceData stP = (Inr (), stF)"
  shows "\<exists>st3. forEach (src_assets sourceData) (importAsset cl) (assetStageStart stP) = (Inr (), st3)
           \<and> extends (st3\<lparr>ledger := ledger stP @ ledger st3\<rparr>) stF"
proof -
  let ?start = "assetStageStart stP"
  obtain r st3 where loop: "forEach (src_assets sourceData) (importAsset cl) ?start = (r, st3)"
    by (cases "forEach (src_assets sourceData) (importAsset cl) ?start")
  let ?rest = "bind (if src_items sourceData \<noteq> [] then
                       bind (consoleLog (Message ''Importing content items'')) (\<lambda>_.
                       bind (importContentItemsAsync ev cfg cl (src_items sourceData)) (\<lambda>_. ret ()))
                     else consoleLog (Message ''There are no content items to import'')) (\<lambda>_.
                consoleLog (Message ''Finished import''))"
  have rest: "growing ?rest" by (intro growing_intros)
  show ?thesis
  proof (cases r)
    case (Inl e)
    with assms loop show ?thesis
      by (simp add: importStages_def importAssetsAsync_def assetStageStart_def run_simps)
  next
    case (Inr u)
    with assms loop
    have "?rest (st3\<lparr>ledger := ledger stP @ ledger st3\<rparr>) = (Inr (), stF)"
      by (simp add: importStages_def importAssetsAsync_def assetStageStart_def run_simps bind_def)
    from growingD [OF rest this] loop Inr show ?thesis by simp
  qed
qed

text \<open>
  C5. In an import that returns, for an asset of the source that both lookups by external
  id find in the target when its turn comes: the step for the asset makes these two
  lookups and no other request (no upload, no creation, nothing that changes the asset),
  appends the two entries (the fetch and the skip) that map the source asset id to the
  id of the existing asset, and logs the skip. The requests of the run are those made
  before the asset's turn, the two lookups, and those of the later assets and items; the
  ledger the import returns holds the entries of the earlier assets, the two entries, and
  those recorded later.
\<close>

theorem existing_asset_fetched_and_skipped:
  assumes "importPreamble ev cfg cl source st0 = (Inr sourceData, stP)"
    and "src_assets sourceData = earlier @ asset # later"
    and "forEach earlier (importAsset cl) (assetStageStart stP) = (Inr (), st1)"
    and "cl_viewAsset cl (calls st1) (assetId asset) = Inr found"
    and "cl_viewAsset cl (calls st1 @ [ViewAsset (assetId asset)]) (assetId asset) = Inr existing"
    and "importAsync ev cfg cl source st0 = (Inr result, stF)"
  shows "importAsset cl asset st1 =
           (Inr (), st1\<lparr>calls := calls st1 @ [ViewAsset (assetId asset), ViewAsset (assetId asset)],
                        ledger := ledger st1 @ fetchedAndSkipped asset existing,
                        console := console st1 @ [ItemLog (filename asset) Asset SkipUpdate]\<rparr>)
         \<and> (\<exists>rest. result = ledger st1 @ fetchedAndSkipped asset existing @ rest)
         \<and> (\<exists>rest. calls stF
               = calls st1 @ [ViewAsset (assetId asset), ViewAsset (assetId asset)] @ rest)"
proof -
  let ?st2 = "st1\<lparr>calls := calls st1 @ [ViewAsset (assetId asset), ViewAsset (assetId asset)],
                  ledger := ledger st1 @ fetchedAndSkipped asset existing,
                  console := console st1 @ [ItemLog (filename asset) Asset SkipUpdate]\<rparr>"
  have step: "importAsset cl asset st1 = (Inr (), ?st2)"
    by (rule existing_asset_step [OF assms(4,5)])
  from importAsync_returns [OF assms(1,6)]
  have stages: "importStages ev cfg cl sourceData stP = (Inr (), stF)" and result: "result = ledger stF"
    by simp_all
  have empty: "ledger stP = []" by (rule importPreamble_ledger [OF assms(1)])
  from assms(2) have "src_assets sourceData \<noteq> []" by simp
  from importStages_assets [OF this stages] assms(2) empty
  obtain st3 where loop: "forEach (earlier @ asset # later) (importAsset cl) (assetStageStart stP)
                            = (Inr (), st3)"
    and final: "extends (st3\<lparr>ledger := ledger st3\<rparr>) stF"
    by auto
  from loop assms(3) step have "forEach later (importAsset cl) ?st2 = (Inr (), st3)"
    by (simp add: forEach_append run_simps)
  from growingD [OF growing_forEach this] have "extends ?st2 st3"
    by (simp add: growing_importAsset)
  with final have "extends ?st2 stF"
    by (auto simp: extends_def)
  then obtain l c where "ledger stF = ledger ?st2 @ l" and "calls stF = calls ?st2 @ c"
    by (auto simp: extends_def prefix_def)
  with step result show ?thesis by simp
qed

lemma assets_example_preamble:
  "importPreamble exampleEnv abortingConfig assetsClient assetsSource emptyState =
     (Inr assetsSource,
      emptyState\<lparr>calls := [ProjectInformation],
                  console := [Message ''Project Target'', Message ''Environment Production'']\<rparr>)"
  by (simp add: importPreamble_def removeSkippedItemsFromImport_def run_simps Let_def
      assetsClient_def existingAssetClient_def refusingClient_def assetsSource_def
      emptyState_def abortingConfig_def)

lemma assets_example_earlier:
  "forEach [secondAsset] (importAsset assetsClient)
      (assetStageStart (emptyState\<lparr>calls := [ProjectInformation],
          console := [Message ''Project Target'', Message ''Environment Production'']\<rparr>)) =
     (Inr (),
      emptyState\<lparr>calls := [ProjectInformation, ViewAsset ''asset-2'', ViewAsset ''asset-2''],
                  console := [Message ''Project Target'', Message ''Environment Production'',
                              Message ''Importing assets'', ItemLog ''photo.jpg'' Asset SkipUpdate],
                  ledger := fetchedAndSkipped secondAsset \<lparr>asset_id = ''target-asset-2''\<rparr>\<rparr>)"
  by (simp add: importAsset_def checkExistingAsset_def run_simps assetStageStart_def
      fetchedAndSkipped_def assetsClient_def existingAssetClient_def refusingClient_def
      secondAsset_def emptyState_def)

lemma assets_example_stages:
  "importStages exampleEnv abortingConfig assetsClient assetsSource
      (emptyState\<lparr>calls := [ProjectInformation],
          console := [Message ''Project Target'', Message ''Environment Production'']\<rparr>) =
     (Inr (),
      emptyState\<lparr>calls := [ProjectInformation, ViewAsset ''asset-2'', ViewAsset ''asset-2'',
                            ViewAsset ''asset-1'', ViewAsset ''asset-1''],
                  console := [Message ''Project Target'', Message ''Environment Production'',
                              Message ''Importing assets'', ItemLog ''photo.jpg'' Asset SkipUpdate,
                              ItemLog ''logo.png'' Asset SkipUpdate,
                              Message ''There are no content items to import'',
                              Message ''Finished import''],
                  ledger := fetchedAndSkipped secondAsset \<lparr>asset_id = ''target-asset-2''\<rparr>
                            @ fetchedAndSkipped exampleAsset \<lparr>asset_id = ''target-asset-1''\<rparr>\<rparr>)"
  by (simp add: importStages_def importAssetsAsync_def importAsset_def checkExistingAsset_def
      run_simps fetchedAndSkipped_def assetsClient_def existingAssetClient_def refusingClient_def
      assetsSource_def secondAsset_def exampleAsset_def emptyState_def)

lemma assets_example_run:
  "importAsync exampleEnv abortingConfig assetsClient assetsSource emptyState =
     (Inr (fetchedAndSkipped secondAsset \<lparr>asset_id = ''target-asset-2''\<rparr>
           @ fetchedAndSkipped exampleAsset \<lparr>asset_id = ''target-asset-1''\<rparr>),
      emptyState\<lparr>calls := [ProjectInformation, ViewAsset ''asset-2'', ViewAsset ''asset-2'',
                            ViewAsset ''asset-1'', ViewAsset ''asset-1''],
                  console := [Message ''Project Target'', Message ''Environment Production'',
                              Message ''Importing assets'', ItemLog ''photo.jpg'' Asset SkipUpdate,
                              ItemLog ''logo.png'' Asset SkipUpdate,
                              Message ''There are no content items to import'',
                              Message ''Finished import''],
                  ledger := fetchedAndSkipped secondAsset \<lparr>asset_id = ''target-asset-2''\<rparr>
                            @ fetchedAndSkipped exampleAsset \<lparr>asset_id = ''target-asset-1''\<rparr>\<rparr>)"
  by (simp add: importAsync_def assets_example_preamble assets_example_stages run_simps)

theorem existing_asset_fetched_and_skipped_witness:
  "fst (importAsset assetsClient exampleAsset
          (emptyState\<lparr>calls := [ProjectInformation, ViewAsset ''asset-2'', ViewAsset ''asset-2''],
             console := [Message ''Project Target'', Message ''Environment Production'',
                         Message ''Importing assets'', ItemLog ''photo.jpg'' Asset SkipUpdate],
             ledger := fetchedAndSkipped secondAsset \<lparr>asset_id = ''target-asset-2''\<rparr>\<rparr>)) = Inr ()
   \<and> fst (importAsync exampleEnv abortingConfig assetsClient assetsSource emptyState)
     = Inr (fetchedAndSkipped secondAsset \<lparr>asset_id = ''target-asset-2''\<rparr>
            @ fetchedAndSkipped exampleAsset \<lparr>asset_id = ''target-asset-1''\<rparr>)
   \<and> calls (snd (importAsync exampleEnv abortingConfig assetsClient assetsSource emptyState))
     = [ProjectInformation, ViewAsset ''asset-2'', ViewAsset ''asset-2'',
        ViewAsset ''asset-1'', ViewAsset ''asset-1'']"
proof -
  let ?st1 = "emptyState\<lparr>calls := [ProjectInformation, ViewAsset ''asset-2'', ViewAsset ''asset-2''],
                console := [Message ''Project Target'', Message ''Environment Production'',
                            Message ''Importing assets'', ItemLog ''photo.jpg'' Asset SkipUpdate],
                ledger := fetchedAndSkipped secondAsset \<lparr>asset_id = ''target-asset-2''\<rparr>\<rparr>"
  have assets: "src_assets assetsSource = [secondAsset] @ exampleAsset # []"
    by (simp add: assetsSource_def)
  have f1: "cl_viewAsset assetsClient (calls ?st1) (assetId exampleAsset)
              = Inr \<lparr>asset_id = ''target-asset-1''\<rparr>"
    by (simp add: assetsClient_def existingAssetClient_def refusingClient_def exampleAsset_def)
  have f2: "cl_viewAsset assetsClient (calls ?st1 @ [ViewAsset (assetId exampleAsset)])
              (assetId exampleAsset) = Inr \<lparr>asset_id = ''target-asset-1''\<rparr>"
    by (simp add: assetsClient_def existingAssetClient_def refusingClient_def exampleAsset_def)
  from existing_asset_fetched_and_skipped
    [OF assets_example_preamble assets assets_example_earlier f1 f2 assets_example_run]
  have "fst (importAsset assetsClient exampleAsset ?st1) = Inr ()"
    by simp
  then show ?thesis unfolding assets_example_run by simp
qed

subsection \<open>Content items\<close>

lemma shouldUpdateContentItem_name_only:
  "shouldUpdateContentItem importContentItem item collections = Inr b
     \<Longrightarrow> b = (item_name importContentItem \<noteq> ci_name item)"
  by (auto simp: shouldUpdateContentItem_def split: option.splits dest: find_Some_iff[THEN iffD1])

text \<open>
  C7. The source item \<open>article\<close> is in the collection \<open>marketing\<close>; the item of that
  codename in the target has the same name and is in the collection \<open>default\<close>. The
  step fetches the item and records a skip: no upsert is requested.
\<close>

theorem collection_change_not_upserted:
  "shouldUpdateContentItem exampleItem
       \<lparr>ci_id = ''target-item-1'', ci_name = ''Article'', ci_codename = ''article'',
        ci_collection_id = ''col-default-id''\<rparr> exampleCollections = Inr False
   \<and> fst (importContentItemStep abortingConfig existingItemClient exampleCollections exampleItem emptyState)
       = Inr ()
   \<and> calls (snd (importContentItemStep abortingConfig existingItemClient exampleCollections exampleItem
                   emptyState)) = [ViewContentItem ''article'']
   \<and> console (snd (importContentItemStep abortingConfig existingItemClient exampleCollections exampleItem
                     emptyState)) = [ItemLog ''Article'' ContentItem SkipUpdate]"
  by (simp add: importContentItemStep_def importContentItemBody_def
      prepareContentItemForImportAsync_def shouldUpdateContentItem_def run_simps
      existingItemClient_def refusingClient_def exampleItem_def exampleCollections_def
      emptyState_def abortingConfig_def)

theorem collection_change_not_upserted_witness:
  "UpsertContentItem ''article'' ''Article'' ''marketing''
     \<notin> set (calls (snd (importContentItemStep abortingConfig existingItemClient exampleCollections
                              exampleItem emptyState)))"
  using collection_change_not_upserted by simp

subsection \<open>Failing items\<close>

lemma forEach_throws: "body x st = (Inl e, st') \<Longrightarrow> forEach (x # xs) body st = (Inl e, st')"
  by (simp add: run_simps)

lemma forEach_continues: "body x st = (Inr (), st') \<Longrightarrow> forEach (x # xs) body st = forEach xs body st'"
  by (simp add: run_simps)

text \<open>
  C8, as amended. When the body of either loop throws for an item, the step swallows the
  exception and logs it if the skip flag is set, and throws it again otherwise; a step
  that throws ends the loop, and a step that returns lets it go on with the next item.
  The state is the one the body left behind: the ledger entries recorded for the item
  before the exception stay in the ledger.
\<close>

theorem failed_item_policy:
  "(importContentItemBody cl collections item st = (Inl e, st') \<longrightarrow>
      importContentItemStep cfg cl collections item st =
        (if skipFailedItems cfg
         then (Inr (), st'\<lparr>console := console st' @ [ItemFailed (item_codename item) (errorMessage e)]\<rparr>)
         else (Inl e, st')))
   \<and> (importLanguageVariantBody ev cl items workflows item st = (Inl e, st') \<longrightarrow>
      importLanguageVariantStep ev cfg cl items workflows item st =
        (if skipFailedItems cfg
         then (Inr (), st'\<lparr>console := console st' @
                 [VariantFailed (item_codename item) (item_language item) (errorMessage e)]\<rparr>)
         else (Inl e, st')))
   \<and> (body x st = (Inl e, st') \<longrightarrow> forEach (x # xs) body st = (Inl e, st'))
   \<and> (body x st = (Inr (), st') \<longrightarrow> forEach (x # xs) body st = forEach xs body st')"
  by (simp add: importContentItemStep_def importLanguageVariantStep_def itemFailed_def
      variantFailed_def run_simps)

lemma invalid_collection_body:
  "importContentItemBody existingItemClient [] exampleItem emptyState =
     (Inl (JsError (''Invalid collection '' @ quoted ''marketing'')),
      emptyState\<lparr>calls := [ViewContentItem ''article''],
        ledger := [\<lparr>imported = TargetItem \<lparr>ci_id = ''target-item-1'', ci_name = ''Article'',
                                             ci_codename = ''article'', ci_collection_id = ''col-default-id''\<rparr>,
                    original = TargetItem \<lparr>ci_id = ''target-item-1'', ci_name = ''Article'',
                                             ci_codename = ''article'', ci_collection_id = ''col-default-id''\<rparr>,
                    importId = Some ''target-item-1'', originalId = None,
                    originalCodename = Some ''article''\<rparr>],
        preparedItems := [\<lparr>ci_id = ''target-item-1'', ci_name = ''Article'', ci_codename = ''article'',
                           ci_collection_id = ''col-default-id''\<rparr>]\<rparr>)"
  by (simp add: importContentItemBody_def prepareContentItemForImportAsync_def
      shouldUpdateContentItem_def run_simps existingItemClient_def refusingClient_def
      exampleItem_def emptyState_def)

lemma variant_lookup_fails_body:
  "importLanguageVariantBody exampleEnv failingVariantClient [exampleItem] [workflowA, workflowB]
       exampleItem preparedState =
     (Inl serviceUnavailable, preparedState\<lparr>calls := [ViewLanguageVariant ''article'' ''en'']\<rparr>)"
  by (simp add: importLanguageVariantBody_def prepareLanguageVariantForImportAsync_def run_simps
      failingVariantClient_def existingItemClient_def refusingClient_def exampleItem_def
      preparedState_def emptyState_def serviceUnavailable_def)

theorem failed_item_policy_witness:
  "importContentItemStep skippingConfig existingItemClient [] exampleItem emptyState =
     (Inr (), emptyState\<lparr>calls := [ViewContentItem ''article''],
        ledger := [\<lparr>imported = TargetItem \<lparr>ci_id = ''target-item-1'', ci_name = ''Article'',
                                             ci_codename = ''article'', ci_collection_id = ''col-default-id''\<rparr>,
                    original = TargetItem \<lparr>ci_id = ''target-item-1'', ci_name = ''Article'',
                                             ci_codename = ''article'', ci_collection_id = ''col-default-id''\<rparr>,
                    importId = Some ''target-item-1'', originalId = None,
                    originalCodename = Some ''article''\<rparr>],
        preparedItems := [\<lparr>ci_id = ''target-item-1'', ci_name = ''Article'', ci_codename = ''article'',
                           ci_collection_id = ''col-default-id''\<rparr>],
        console := [ItemFailed ''article'' (''Invalid collection '' @ quoted ''marketing'')]\<rparr>)
   \<and> importLanguageVariantStep exampleEnv abortingConfig failingVariantClient [exampleItem]
         [workflowA, workflowB] exampleItem preparedState =
     (Inl serviceUnavailable, preparedState\<lparr>calls := [ViewLanguageVariant ''article'' ''en'']\<rparr>)
   \<and> forEach [exampleItem, exampleItem]
         (importLanguageVariantStep exampleEnv abortingConfig failingVariantClient [exampleItem]
            [workflowA, workflowB]) preparedState =
     (Inl serviceUnavailable, preparedState\<lparr>calls := [ViewLanguageVariant ''article'' ''en'']\<rparr>)"
proof -
  note a = failed_item_policy
    [where cl = existingItemClient and collections = "[]" and item = exampleItem
       and st = emptyState and cfg = skippingConfig, THEN conjunct1, rule_format,
     OF invalid_collection_body]
  note b = failed_item_policy
    [where cl = failingVariantClient and ev = exampleEnv and items = "[exampleItem]"
       and workflows = "[workflowA, workflowB]" and item = exampleItem
       and st = preparedState and cfg = abortingConfig, THEN conjunct2, THEN conjunct1, rule_format,
     OF variant_lookup_fails_body]
  have b': "importLanguageVariantStep exampleEnv abortingConfig failingVariantClient [exampleItem]
         [workflowA, workflowB] exampleItem preparedState =
     (Inl serviceUnavailable, preparedState\<lparr>calls := [ViewLanguageVariant ''article'' ''en'']\<rparr>)"
    using b by (simp add: abortingConfig_def)
  note c = failed_item_policy
    [where body = "importLanguageVariantStep exampleEnv abortingConfig failingVariantClient
                     [exampleItem] [workflowA, workflowB]"
       and x = exampleItem and xs = "[exampleItem]" and st = preparedState,
     THEN conjunct2, THEN conjunct2, THEN conjunct1, rule_format, OF b']
  from a b' c show ?thesis
    by (simp add: skippingConfig_def exampleItem_def emptyState_def)
qed

text \<open>
  With the skip flag set, an item whose collection is not in the target fails after it has
  been fetched: the exception is swallowed, and the ledger keeps the item's fetch entry.
\<close>

theorem skipped_item_stays_in_ledger:
  "fst (importContentItemStep skippingConfig existingItemClient [] exampleItem emptyState) = Inr ()
   \<and> map originalCodename
         (ledger (snd (importContentItemStep skippingConfig existingItemClient [] exampleItem emptyState)))
       = [Some ''article'']
   \<and> console (snd (importContentItemStep skippingConfig existingItemClient [] exampleItem emptyState))
       = [ItemFailed ''article'' (''Invalid collection '' @ quoted ''marketing'')]"
  by (simp add: importContentItemStep_def itemFailed_def importContentItemBody_def
      prepareContentItemForImportAsync_def shouldUpdateContentItem_def run_simps
      existingItemClient_def refusingClient_def exampleItem_def emptyState_def skippingConfig_def)

subsection \<open>The orchestrator\<close>

text \<open>
  C4, as amended. When a stage throws, \<open>importAsync\<close> logs the error and throws what
  \<open>handleError\<close> makes of it: the classified object for a Kontent error, the error
  itself otherwise. The caller receives this exception and no ledger.
\<close>

theorem stage_error_rejects_import:
  assumes "importPreamble ev cfg cl source st = (Inr sourceData, st1)"
    and "importStages ev cfg cl sourceData st1 = (Inl e, st2)"
  shows "importAsync ev cfg cl source st
           = (Inl (handleError e), st2\<lparr>console := console st2 @ [ErrorDump e]\<rparr>)
         \<and> handleError (KontentError ke)
           = ClassifiedError (''Failed to import data with error: '' @ ke_message ke)
               (ke_errorCode ke) (ke_requestId ke) (joinWith '', '' (ke_validationErrors ke))
         \<and> handleError (JsError m) = JsError m"
  using assms by (simp add: importAsync_def handleImportError_def run_simps)

lemma example_preamble:
  "importPreamble exampleEnv abortingConfig failingVariantClient exampleSource emptyState =
     (Inr exampleSource,
      emptyState\<lparr>calls := [ProjectInformation],
                  console := [Message ''Project Target'', Message ''Environment Production'']\<rparr>)"
  by (simp add: importPreamble_def removeSkippedItemsFromImport_def run_simps Let_def
      failingVariantClient_def existingItemClient_def refusingClient_def exampleSource_def
      emptyState_def abortingConfig_def)

lemma example_stages:
  "importStages exampleEnv abortingConfig failingVariantClient exampleSource
      (emptyState\<lparr>calls := [ProjectInformation],
                  console := [Message ''Project Target'', Message ''Environment Production'']\<rparr>) =
     (Inl serviceUnavailable,
      emptyState\<lparr>calls := [ProjectInformation, ListWorkflows, ListCollections,
                            ViewContentItem ''article'', ViewLanguageVariant ''article'' ''en''],
                  console := [Message ''Project Target'', Message ''Environment Production'',
                              Message ''There are no assets to import'',
                              Message ''Importing content items'',
                              ItemLog ''Article'' ContentItem SkipUpdate],
                  ledger := ledgerAtFailure,
                  preparedItems := [\<lparr>ci_id = ''target-item-1'', ci_name = ''Article'',
                                     ci_codename = ''article'', ci_collection_id = ''col-default-id''\<rparr>]\<rparr>)"
  by (simp add: importStages_def importContentItemsAsync_def importContentItemStep_def
      importContentItemBody_def prepareContentItemForImportAsync_def shouldUpdateContentItem_def
      importLanguageVariantStep_def importLanguageVariantBody_def variantFailed_def
      prepareLanguageVariantForImportAsync_def run_simps ledgerAtFailure_def
      failingVariantClient_def existingItemClient_def refusingClient_def exampleSource_def
      exampleItem_def exampleCollections_def emptyState_def abortingConfig_def
      serviceUnavailable_def)

theorem stage_error_rejects_import_witness:
  "fst (importAsync exampleEnv abortingConfig failingVariantClient exampleSource emptyState)
     = Inl (handleError serviceUnavailable)"
  using stage_error_rejects_import [OF example_preamble example_stages] by simp

text \<open>
  A run in which the lookup of the language variant fails after the content item has been
  fetched and skipped: two ledger entries exist when the import throws the classified
  error, and the caller gets the error only.
\<close>

theorem partial_ledger_not_returned:
  "fst (importAsync exampleEnv abortingConfig failingVariantClient exampleSource emptyState)
     = Inl (ClassifiedError ''Failed to import data with error: Service unavailable'' 0 ''r-1'' [])
   \<and> ledger (snd (importAsync exampleEnv abortingConfig failingVariantClient exampleSource emptyState))
     = ledgerAtFailure"
  by (simp add: importAsync_def handleImportError_def example_preamble example_stages run_simps
      serviceUnavailable_def)

subsection \<open>Workflow reconciliation\<close>


lemma workflowOperations_append:
  "workflowOperations st (st'\<lparr>calls := calls st @ cs\<rparr>) = filter isWorkflowOperation cs"
  by (simp add: workflowOperations_def)








end
